theory Spec2Isabelle
  imports Complex_Main "HOL-Library.Word" "HOL-Library.Sublist"
begin

section \<open>The live conversation hook (src/hooks/useGeminiLive.ts)\<close>

text \<open>
  The hook \<^verbatim>\<open>useGeminiLive\<close> keeps its state in React state variables and in mutable
  reference cells. The embedding is explicit state passing over one record \<open>Hook\<close>:
  every \<^verbatim>\<open>setX(v)\<close> and every assignment to \<^verbatim>\<open>ref.current\<close> is a field update, every
  callback of the hook is a function from the state to the new state.

  Conventions of the embedding:
  \<^item> JavaScript numbers that hold times (the playback cursor, the output clock, buffer
    durations) are \<open>real\<close>; \<open>+\<close> and \<open>max\<close> stand for the number operations of the
    source. Captured samples are \<open>real\<close> as well: the only arithmetic on them is the
    multiplication by \<open>32768\<close>, a power of two.
  \<^item> Strings are \<open>string\<close>; a character stands for one code unit below 256.
  \<^item> What the code reads from its surroundings is a parameter: the readings of
    \<^verbatim>\<open>Date.now()\<close> and of \<^verbatim>\<open>outputAudioContext.currentTime\<close> (record \<open>Env\<close>), and the
    audio decoder \<^verbatim>\<open>decodeAudioData(decode(_), ...)\<close> of \<^verbatim>\<open>utils/audio\<close>.
  \<^item> A value of a render that a callback closes over is a parameter of the callback
    (\<open>startSession\<close>, \<open>closeSession\<close> and \<open>handleError\<close> take the \<^verbatim>\<open>connectionState\<close>
    of the render that created them).
  \<^item> A thrown exception or rejected promise is the outcome \<open>Rejected\<close>; the state
    reached before the throw is kept, as the mutations of the source are.
  \<^item> The calls the hook makes on devices and on the channel are logged, in the
    order in which they are made, in the field \<open>trace\<close>.
  \<^item> A call that the source wraps in \<^verbatim>\<open>sessionPromise.then(...)\<close> is not made where the
    \<^verbatim>\<open>then\<close> stands: the callback is queued in the field \<open>reactions\<close>, and the call
    is made and logged when the callback runs (\<open>runReaction\<close>), after the code that
    queued it has returned, and only if the promise resolves.
\<close>

subsection \<open>types.ts\<close>

datatype ConnectionState = IDLE | CONNECTING | CONNECTED | CLOSING | CLOSED | ERROR

datatype ConversationRole = USER | MODEL

record TranscriptEntry =
  entry_id :: string
  entry_role :: ConversationRole
  entry_text :: string

subsection \<open>Inbound messages\<close>

text \<open>
  The fields of \<^verbatim>\<open>LiveServerMessage\<close> that \<^verbatim>\<open>handleMessage\<close> reads. Every one is
  optional in the source; an absent object or string is \<open>None\<close>, an absent boolean
  is \<open>False\<close>.
\<close>

record InlineData =
  inline_data :: "string option"

record Part =
  inlineData :: "InlineData option"

record Content =
  parts :: "Part list option"

record Transcription =
  transcription_text :: "string option"

record ServerContent =
  outputTranscription :: "Transcription option"
  inputTranscription :: "Transcription option"
  turnComplete :: bool
  modelTurn :: "Content option"
  interrupted :: bool

record LiveServerMessage =
  serverContent :: "ServerContent option"

subsection \<open>Playback objects, thrown values, logged calls\<close>

record AudioBuffer =
  duration :: real

text \<open>
  A buffer source node is an object; \<open>node_id\<close> is its identity (the number of
  nodes created before it).
\<close>

record AudioBufferSourceNode =
  node_id :: nat
  node_buffer :: AudioBuffer

text \<open>
  What a \<^verbatim>\<open>throw\<close> or a rejected promise carries: a \<^verbatim>\<open>DOMException\<close> with its name and
  message, any other \<^verbatim>\<open>Error\<close> with its message, or a value that is no \<^verbatim>\<open>Error\<close>.
\<close>

datatype Thrown =
    DOMException string string
  | Error string
  | NonError

datatype Outcome = Resolved | Rejected Thrown

datatype Effect =
    SetConnectionState ConnectionState
  | SessionClose
  | ScriptProcessorDisconnect
  | MediaStreamTracksStop
  | MediaStreamSourceDisconnect
  | SetAnalyserNode bool
  | InputContextClose
  | OutputContextClose
  | SourceStart nat real
  | SourceStop nat
  | SendRealtimeInput "16 word list"

text \<open>
  The callbacks that the hook registers on the session promise with \<^verbatim>\<open>then\<close>: the one
  of line 180 calls \<^verbatim>\<open>session.close()\<close>, the one of lines 140 to 142 calls
  \<^verbatim>\<open>session.sendRealtimeInput\<close> with a frame.
\<close>

datatype Reaction =
    CloseReaction
  | SendReaction "16 word list"

subsection \<open>The state of the hook\<close>

text \<open>
  The first fourteen fields are the state variables and reference cells of the
  source, under their names. A reference cell that holds an object or \<^verbatim>\<open>null\<close> is a
  \<open>bool\<close> (\<open>True\<close>: an object); an audio context is its sample rate. The set
  \<^verbatim>\<open>sourcesRef\<close> is the list of its members in insertion order, the order in which a
  JavaScript \<^verbatim>\<open>Set\<close> iterates.

  Four fields belong to the embedding: \<open>allocated\<close> counts the source nodes created,
  \<open>callbacksClosure\<close> is the \<^verbatim>\<open>connectionState\<close> seen by the callbacks handed to
  \<^verbatim>\<open>live.connect\<close>, \<open>reactions\<close> holds the callbacks registered on the session
  promise that have not run yet, in the order of registration, \<open>trace\<close> is the log
  of calls.
\<close>

record Hook =
  connectionState :: ConnectionState
  transcript :: "TranscriptEntry list"
  analyserNode :: bool
  errorMessage :: "string option"
  aiRef :: bool
  sessionPromiseRef :: bool
  inputAudioContextRef :: "nat option"
  outputAudioContextRef :: "nat option"
  scriptProcessorRef :: bool
  mediaStreamSourceRef :: bool
  nextStartTimeRef :: real
  sourcesRef :: "AudioBufferSourceNode list"
  currentInputTranscriptionRef :: string
  currentOutputTranscriptionRef :: string
  allocated :: nat
  callbacksClosure :: "ConnectionState option"
  reactions :: "Reaction list"
  trace :: "Effect list"

record Env =
  dateNowUser :: int
  dateNowModel :: int
  currentTime :: real

type_synonym Decoder = "string \<Rightarrow> Thrown + AudioBuffer"

definition INPUT_SAMPLE_RATE :: nat where
  "INPUT_SAMPLE_RATE = 16000"

definition OUTPUT_SAMPLE_RATE :: nat where
  "OUTPUT_SAMPLE_RATE = 24000"

definition BUFFER_SIZE :: nat where
  "BUFFER_SIZE = 4096"

text \<open>The state of the first render: the initial values of lines 11 to 26.\<close>

definition initialHook :: Hook where
  "initialHook =
     \<lparr>connectionState = IDLE, transcript = [], analyserNode = False, errorMessage = None,
      aiRef = False, sessionPromiseRef = False, inputAudioContextRef = None,
      outputAudioContextRef = None, scriptProcessorRef = False,
      mediaStreamSourceRef = False, nextStartTimeRef = 0, sourcesRef = [],
      currentInputTranscriptionRef = [], currentOutputTranscriptionRef = [],
      allocated = 0, callbacksClosure = None, reactions = [], trace = []\<rparr>"

subsection \<open>Strings of the language\<close>

text \<open>
  \<^verbatim>\<open>String.prototype.trim\<close> removes white space and line terminators from both ends;
  below 256 these are the code units 9 to 13, 32 and 160.
\<close>

definition isWhiteSpace :: "char \<Rightarrow> bool" where
  "isWhiteSpace c =
     (c = CHR 0x09 \<or> c = CHR 0x0A \<or> c = CHR 0x0B \<or> c = CHR 0x0C \<or> c = CHR 0x0D
      \<or> c = CHR 0x20 \<or> c = CHR 0xA0)"

definition trim :: "string \<Rightarrow> string" where
  "trim s = rev (dropWhile isWhiteSpace (rev (dropWhile isWhiteSpace s)))"

text \<open>
  Trimming as the spec words it, stated on its own to compare \<open>trim\<close> with:
  \<open>specTrim s t\<close> says that \<open>t\<close> is \<open>s\<close> without the white space at its two ends, that
  is, \<open>s\<close> is \<open>t\<close> between two runs of white space, and \<open>t\<close> neither starts nor ends
  with white space.
\<close>

definition specTrim :: "string \<Rightarrow> string \<Rightarrow> bool" where
  "specTrim s t =
     (\<exists>pre post. s = pre @ t @ post
        \<and> list_all isWhiteSpace pre \<and> list_all isWhiteSpace post
        \<and> (t = [] \<or> (\<not> isWhiteSpace (hd t) \<and> \<not> isWhiteSpace (last t))))"

text \<open>The decimal numeral of a template literal \<^verbatim>\<open>${n}\<close>.\<close>

fun show_nat :: "nat \<Rightarrow> string" where
  "show_nat n =
     (if n < 10 then [''0123456789'' ! n]
      else show_nat (n div 10) @ [''0123456789'' ! (n mod 10)])"

declare show_nat.simps [simp del]

definition show_int :: "int \<Rightarrow> string" where
  "show_int i = (if i < 0 then CHR ''-'' # show_nat (nat (- i)) else show_nat (nat i))"

text \<open>\<^verbatim>\<open>buf += t.text\<close>: an absent \<^verbatim>\<open>text\<close> is appended as the word \<^verbatim>\<open>undefined\<close>.\<close>

definition appendText :: "string \<Rightarrow> Transcription option \<Rightarrow> string" where
  "appendText buf tr =
     (case tr of
        None \<Rightarrow> buf
      | Some t \<Rightarrow> buf @ (case transcription_text t of None \<Rightarrow> ''undefined'' | Some x \<Rightarrow> x))"

subsection \<open>handleMessage\<close>

text \<open>Lines 37 to 42: the transcription fragments of the message are accumulated.\<close>

definition accumulate :: "ServerContent option \<Rightarrow> Hook \<Rightarrow> Hook" where
  "accumulate sc s =
     (case sc of
        None \<Rightarrow> s
      | Some c \<Rightarrow>
          s\<lparr>currentOutputTranscriptionRef :=
               appendText (currentOutputTranscriptionRef s) (outputTranscription c),
            currentInputTranscriptionRef :=
               appendText (currentInputTranscriptionRef s) (inputTranscription c)\<rparr>)"

text \<open>Lines 45 to 56: the body of the turn-complete branch.\<close>

definition flushTurn :: "Env \<Rightarrow> Hook \<Rightarrow> Hook" where
  "flushTurn env s =
     (let fullInput = trim (currentInputTranscriptionRef s);
          fullOutput = trim (currentOutputTranscriptionRef s);
          newTranscript =
            transcript s
            @ (if fullInput \<noteq> [] then
                 [\<lparr>entry_id = ''user-'' @ show_int (dateNowUser env),
                   entry_role = USER, entry_text = fullInput\<rparr>]
               else [])
            @ (if fullOutput \<noteq> [] then
                 [\<lparr>entry_id = ''model-'' @ show_int (dateNowModel env),
                   entry_role = MODEL, entry_text = fullOutput\<rparr>]
               else [])
      in s\<lparr>transcript := newTranscript,
           currentInputTranscriptionRef := [],
           currentOutputTranscriptionRef := []\<rparr>)"

definition turnCompleted :: "ServerContent option \<Rightarrow> bool" where
  "turnCompleted sc = (case sc of None \<Rightarrow> False | Some c \<Rightarrow> turnComplete c)"

definition wasInterrupted :: "ServerContent option \<Rightarrow> bool" where
  "wasInterrupted sc = (case sc of None \<Rightarrow> False | Some c \<Rightarrow> interrupted c)"

text \<open>
  Line 59: \<^verbatim>\<open>message.serverContent?.modelTurn?.parts[0]?.inlineData?.data\<close>. The index
  \<^verbatim>\<open>[0]\<close> is not guarded: a model turn without \<^verbatim>\<open>parts\<close> throws a type error.
\<close>

definition base64Audio :: "ServerContent option \<Rightarrow> Thrown + string option" where
  "base64Audio sc =
     (case sc of
        None \<Rightarrow> Inr None
      | Some c \<Rightarrow>
          (case modelTurn c of
             None \<Rightarrow> Inr None
           | Some mt \<Rightarrow>
               (case parts mt of
                  None \<Rightarrow> Inl (Error ''TypeError'')
                | Some ps \<Rightarrow>
                    (case ps of
                       [] \<Rightarrow> Inr None
                     | p # _ \<Rightarrow>
                         (case inlineData p of
                            None \<Rightarrow> Inr None
                          | Some b \<Rightarrow> Inr (inline_data b))))))"

text \<open>
  Lines 61 to 71, entered when the payload is a non-empty string and the output
  context exists: clamp the cursor, decode, create the source, start it at the
  cursor, advance the cursor, add the source to the set. A decoder that throws
  rejects the handler after the clamp.
\<close>

definition playChunk :: "Decoder \<Rightarrow> Env \<Rightarrow> string \<Rightarrow> Hook \<Rightarrow> Outcome \<times> Hook" where
  "playChunk dec env b s =
     (let s1 = s\<lparr>nextStartTimeRef := max (nextStartTimeRef s) (currentTime env)\<rparr>
      in case dec b of
           Inl e \<Rightarrow> (Rejected e, s1)
         | Inr audioBuffer \<Rightarrow>
             (let source = \<lparr>node_id = allocated s1, node_buffer = audioBuffer\<rparr>
              in (Resolved,
                  s1\<lparr>allocated := Suc (allocated s1),
                     trace := trace s1 @ [SourceStart (node_id source) (nextStartTimeRef s1)],
                     nextStartTimeRef := nextStartTimeRef s1 + duration audioBuffer,
                     sourcesRef := sourcesRef s1 @ [source]\<rparr>)))"

text \<open>Lines 75 to 79: the body of the interruption branch.\<close>

definition stopAll :: "Hook \<Rightarrow> Hook" where
  "stopAll s =
     s\<lparr>trace := trace s @ map (\<lambda>source. SourceStop (node_id source)) (sourcesRef s),
       sourcesRef := [],
       nextStartTimeRef := 0\<rparr>"

definition interruptStep :: "ServerContent option \<Rightarrow> Hook \<Rightarrow> Hook" where
  "interruptStep sc s = (if wasInterrupted sc then stopAll s else s)"

definition audioStep :: "Decoder \<Rightarrow> Env \<Rightarrow> ServerContent option \<Rightarrow> Hook \<Rightarrow> Outcome \<times> Hook" where
  "audioStep dec env sc s =
     (case base64Audio sc of
        Inl e \<Rightarrow> (Rejected e, s)
      | Inr a \<Rightarrow>
          (case a of
             None \<Rightarrow> (Resolved, s)
           | Some b \<Rightarrow>
               (if b \<noteq> [] \<and> outputAudioContextRef s \<noteq> None then playChunk dec env b s
                else (Resolved, s))))"

text \<open>Lines 37 to 57: the part of the handler that deals with the transcript.\<close>

definition transcriptStep :: "Env \<Rightarrow> ServerContent option \<Rightarrow> Hook \<Rightarrow> Hook" where
  "transcriptStep env sc s =
     (let s1 = accumulate sc s
      in if turnCompleted sc then flushTurn env s1 else s1)"

text \<open>
  Lines 36 to 81. The handler is asynchronous and awaits the decoder; it is taken
  here as one step, the decoder settling before the next event is handled, and the
  output clock is read once, at the clamp of line 61. A rejection at line 59 or
  line 62 ends the handler: the interruption branch is not reached.
\<close>

definition handleMessage :: "Decoder \<Rightarrow> Env \<Rightarrow> LiveServerMessage \<Rightarrow> Hook \<Rightarrow> Outcome \<times> Hook" where
  "handleMessage dec env message s =
     (let sc = serverContent message;
          s2 = transcriptStep env sc s
      in case audioStep dec env sc s2 of
           (Rejected e, s3) \<Rightarrow> (Rejected e, s3)
         | (Resolved, s3) \<Rightarrow> (Resolved, interruptStep sc s3))"

text \<open>Lines 66 to 68: the listener of a source's \<^verbatim>\<open>ended\<close> event.\<close>

definition sourceEnded :: "nat \<Rightarrow> Hook \<Rightarrow> Hook" where
  "sourceEnded n s = s\<lparr>sourcesRef := filter (\<lambda>source. node_id source \<noteq> n) (sourcesRef s)\<rparr>"

subsection \<open>The capture callback\<close>

text \<open>
  Line 134: \<^verbatim>\<open>int16[i] = inputData[i] * 32768\<close>. A store into an \<^verbatim>\<open>Int16Array\<close> converts
  the number as the language's \<^verbatim>\<open>ToInt16\<close> does: the fraction is cut off towards zero
  and the integer is taken modulo \<open>2 ^ 16\<close> into the signed range.
\<close>

definition truncNumber :: "real \<Rightarrow> int" where
  "truncNumber x = (if x < 0 then - \<lfloor>- x\<rfloor> else \<lfloor>x\<rfloor>)"

definition toInt16 :: "real \<Rightarrow> 16 word" where
  "toInt16 x = word_of_int (truncNumber x)"

text \<open>Lines 131 to 135: the loop over the captured buffer, from index \<open>i\<close> on.\<close>

function fillInt16 :: "real list \<Rightarrow> nat \<Rightarrow> 16 word list \<Rightarrow> 16 word list" where
  "fillInt16 inputData i int16 =
     (if i < length inputData
      then fillInt16 inputData (i + 1) (int16[i := toInt16 (inputData ! i * 32768)])
      else int16)"
  by pat_completeness auto
termination
  by (relation "measure (\<lambda>(inputData, i, int16). length inputData - i)") auto

declare fillInt16.simps [simp del]

definition pcmInt16 :: "real list \<Rightarrow> 16 word list" where
  "pcmInt16 inputData = fillInt16 inputData 0 (replicate (length inputData) 0)"

text \<open>
  Lines 130 to 142: when the session promise exists, a callback that sends the frame
  is registered on it. The frame is kept as its samples; their transport encoding
  is \<^verbatim>\<open>encode\<close> of \<^verbatim>\<open>utils/audio\<close>.
\<close>

definition onaudioprocess :: "real list \<Rightarrow> Hook \<Rightarrow> Hook" where
  "onaudioprocess inputData s =
     (if sessionPromiseRef s
      then s\<lparr>reactions := reactions s @ [SendReaction (pcmInt16 inputData)]\<rparr>
      else s)"

text \<open>
  The oldest registered callback runs. \<open>resolved\<close> tells whether the session promise
  resolved: if so the callback makes its call on the session; if the promise
  rejected, the callback is dropped and the rejection goes to \<^verbatim>\<open>console.error\<close>
  (line 180) or is unhandled (line 140).
\<close>

definition reactionCall :: "Reaction \<Rightarrow> Effect" where
  "reactionCall r = (case r of CloseReaction \<Rightarrow> SessionClose | SendReaction frame \<Rightarrow> SendRealtimeInput frame)"

definition runReaction :: "bool \<Rightarrow> Hook \<Rightarrow> Hook" where
  "runReaction resolved s =
     (case reactions s of
        [] \<Rightarrow> s
      | r # rest \<Rightarrow>
          s\<lparr>reactions := rest,
            trace := trace s @ (if resolved then [reactionCall r] else [])\<rparr>)"

text \<open>The sample a 16-bit value stands for: the inverse scaling.\<close>

definition fromInt16 :: "16 word \<Rightarrow> real" where
  "fromInt16 w = real_of_int (sint w) / 32768"

subsection \<open>closeSession, handleError, handleClose\<close>

text \<open>
  Lines 176 to 201. The parameter \<open>captured\<close> is the \<^verbatim>\<open>connectionState\<close> of the render
  whose \<^verbatim>\<open>closeSession\<close> is called (the callback is rebuilt when that value changes,
  and reads no other). Each \<^verbatim>\<open>ref.current?.call()\<close> happens when the cell holds an
  object. Line 180 does not close the channel: it registers, on the session
  promise, the callback that will. The \<^verbatim>\<open>close()\<close> of an audio context is called
  where it stands; the promise it returns is not awaited.
\<close>

definition closeSession :: "ConnectionState \<Rightarrow> Hook \<Rightarrow> Hook" where
  "closeSession captured s =
     (if captured = IDLE \<or> captured = CLOSED then s
      else
        let s1 = s\<lparr>connectionState := CLOSING,
                   trace := trace s @ [SetConnectionState CLOSING]\<rparr>;
            s2 = s1\<lparr>reactions := reactions s1 @ (if sessionPromiseRef s1 then [CloseReaction] else []),
                    sessionPromiseRef := False\<rparr>;
            s3 = s2\<lparr>trace := trace s2 @ (if scriptProcessorRef s2 then [ScriptProcessorDisconnect] else []),
                    scriptProcessorRef := False\<rparr>;
            s4 = s3\<lparr>trace := trace s3 @ (if mediaStreamSourceRef s3
                                           then [MediaStreamTracksStop, MediaStreamSourceDisconnect]
                                           else []),
                    mediaStreamSourceRef := False\<rparr>;
            s5 = s4\<lparr>analyserNode := False, trace := trace s4 @ [SetAnalyserNode False]\<rparr>;
            s6 = s5\<lparr>trace := trace s5
                             @ (if inputAudioContextRef s5 \<noteq> None then [InputContextClose] else [])
                             @ (if outputAudioContextRef s5 \<noteq> None then [OutputContextClose] else []),
                    inputAudioContextRef := None,
                    outputAudioContextRef := None\<rparr>;
            s7 = stopAll s6
        in s7\<lparr>connectionState := CLOSED, trace := trace s7 @ [SetConnectionState CLOSED]\<rparr>)"

text \<open>
  Lines 28 to 34: the cleanup of the mount effect. The effect has no dependencies,
  so the cleanup that runs at unmount is the one of the first render, and the
  \<^verbatim>\<open>closeSession\<close> it calls closed over the initial state \<open>IDLE\<close>.
\<close>

definition unmountCleanup :: "Hook \<Rightarrow> Hook" where
  "unmountCleanup s = closeSession IDLE s"

text \<open>Lines 83 to 88. \<open>captured\<close> is the value its \<^verbatim>\<open>closeSession\<close> closes over.\<close>

definition handleError :: "ConnectionState \<Rightarrow> Hook \<Rightarrow> Hook" where
  "handleError captured s =
     closeSession captured
       (s\<lparr>connectionState := ERROR,
          trace := trace s @ [SetConnectionState ERROR],
          errorMessage := Some ''A connection error occurred.''\<rparr>)"

text \<open>Lines 90 to 92.\<close>

definition handleClose :: "Hook \<Rightarrow> Hook" where
  "handleClose s = s\<lparr>connectionState := CLOSED, trace := trace s @ [SetConnectionState CLOSED]\<rparr>"

subsection \<open>startSession\<close>

text \<open>
  What the try block of \<^verbatim>\<open>startSession\<close> meets: the value of \<^verbatim>\<open>process.env.API_KEY\<close>
  and what \<^verbatim>\<open>getUserMedia\<close> rejects with, if it does.
\<close>

record StartEnv =
  apiKey :: "string option"
  getUserMediaRejects :: "Thrown option"

text \<open>
  Lines 104 to 160, the try block. The callbacks handed to \<^verbatim>\<open>live.connect\<close> are those
  of the render of this \<^verbatim>\<open>startSession\<close>, whose \<^verbatim>\<open>connectionState\<close> is \<open>captured\<close>.
  The promise that \<^verbatim>\<open>live.connect\<close> returns is stored, not awaited.
\<close>

definition startSetup :: "ConnectionState \<Rightarrow> StartEnv \<Rightarrow> Hook \<Rightarrow> Outcome \<times> Hook" where
  "startSetup captured senv s =
     (if apiKey senv = None \<or> apiKey senv = Some []
      then (Rejected (Error ''API_KEY environment variable not set.''), s)
      else
        let s1 = s\<lparr>aiRef := True,
                   inputAudioContextRef := Some INPUT_SAMPLE_RATE,
                   outputAudioContextRef := Some OUTPUT_SAMPLE_RATE\<rparr>
        in case getUserMediaRejects senv of
             Some e \<Rightarrow> (Rejected e, s1)
           | None \<Rightarrow>
               (Resolved,
                s1\<lparr>mediaStreamSourceRef := True,
                   analyserNode := True,
                   trace := trace s1 @ [SetAnalyserNode True],
                   scriptProcessorRef := True,
                   sessionPromiseRef := True,
                   callbacksClosure := Some captured\<rparr>))"

text \<open>Lines 162 to 172, the catch block. A \<^verbatim>\<open>DOMException\<close> is an \<^verbatim>\<open>Error\<close>.\<close>

definition startFailed :: "Thrown \<Rightarrow> Hook \<Rightarrow> Hook" where
  "startFailed e s =
     (let message =
            (case e of
               DOMException name msg \<Rightarrow>
                 (if name = ''NotAllowedError'' \<or> name = ''PermissionDeniedError''
                  then ''Microphone permission was denied. Please allow microphone access in your browser settings and try again.''
                  else ''Failed to start session: '' @ msg)
             | Error msg \<Rightarrow> ''Failed to start session: '' @ msg
             | NonError \<Rightarrow> ''An unknown error occurred while starting the session.'')
      in s\<lparr>errorMessage := Some message,
           connectionState := ERROR,
           trace := trace s @ [SetConnectionState ERROR]\<rparr>)"

text \<open>Lines 97 to 101: what a start that passes the guard does before the try block.\<close>

definition startReset :: "Hook \<Rightarrow> Hook" where
  "startReset s =
     s\<lparr>connectionState := CONNECTING,
       trace := trace s @ [SetConnectionState CONNECTING],
       transcript := [],
       errorMessage := None,
       currentInputTranscriptionRef := [],
       currentOutputTranscriptionRef := []\<rparr>"

definition startSession :: "ConnectionState \<Rightarrow> StartEnv \<Rightarrow> Hook \<Rightarrow> Hook" where
  "startSession captured senv s =
     (if captured \<noteq> IDLE \<and> captured \<noteq> CLOSED \<and> captured \<noteq> ERROR then s
      else
        case startSetup captured senv (startReset s) of
          (Resolved, s1) \<Rightarrow> s1
        | (Rejected e, s1) \<Rightarrow> startFailed e s1)"

text \<open>
  Lines 127 to 146: the channel's \<^verbatim>\<open>onopen\<close> callback. It moves to \<open>CONNECTED\<close>; the
  capture callback it installs is \<open>onaudioprocess\<close> above, and the connections it
  makes between the capture nodes are not logged.
\<close>

definition onopen :: "Hook \<Rightarrow> Hook" where
  "onopen s = s\<lparr>connectionState := CONNECTED, trace := trace s @ [SetConnectionState CONNECTED]\<rparr>"

subsection \<open>Requests and channel events\<close>

text \<open>
  The component calls the \<^verbatim>\<open>startSession\<close> and \<^verbatim>\<open>closeSession\<close> that the latest render
  returned, which closed over the current \<^verbatim>\<open>connectionState\<close>. The channel calls the
  \<^verbatim>\<open>handleError\<close> it was given by \<^verbatim>\<open>live.connect\<close>, whose \<^verbatim>\<open>closeSession\<close> closed over
  the \<^verbatim>\<open>connectionState\<close> of the render that started the session.
\<close>

definition startRequest :: "StartEnv \<Rightarrow> Hook \<Rightarrow> Hook" where
  "startRequest senv s = startSession (connectionState s) senv s"

definition closeRequest :: "Hook \<Rightarrow> Hook" where
  "closeRequest s = closeSession (connectionState s) s"

definition channelError :: "Hook \<Rightarrow> Hook" where
  "channelError s =
     (case callbacksClosure s of
        None \<Rightarrow> s
      | Some captured \<Rightarrow> handleError captured s)"

text \<open>
  The channel hands its messages to \<^verbatim>\<open>onmessage\<close> one at a time, in the order of
  delivery; each is handled with the readings of its own moment. A rejected
  handler does not keep the next message from being handled.
\<close>

fun handleMessages :: "Decoder \<Rightarrow> (Env \<times> LiveServerMessage) list \<Rightarrow> Hook \<Rightarrow> Hook" where
  "handleMessages dec [] s = s"
| "handleMessages dec ((env, m) # rest) s =
     handleMessages dec rest (snd (handleMessage dec env m s))"

text \<open>The text that lines 38 and 41 append for a message, on each side.\<close>

definition inputFragmentOf :: "LiveServerMessage \<Rightarrow> string" where
  "inputFragmentOf m =
     (case serverContent m of None \<Rightarrow> [] | Some c \<Rightarrow> appendText [] (inputTranscription c))"

definition outputFragmentOf :: "LiveServerMessage \<Rightarrow> string" where
  "outputFragmentOf m =
     (case serverContent m of None \<Rightarrow> [] | Some c \<Rightarrow> appendText [] (outputTranscription c))"

subsection \<open>Example inputs\<close>

text \<open>Concrete surroundings, messages and decoders, for the examples below.\<close>

abbreviation exampleEnv :: "int \<Rightarrow> real \<Rightarrow> Env" where
  "exampleEnv t now \<equiv> \<lparr>dateNowUser = t, dateNowModel = t, currentTime = now\<rparr>"

abbreviation emptyContent :: ServerContent where
  "emptyContent \<equiv>
     \<lparr>outputTranscription = None, inputTranscription = None, turnComplete = False,
      modelTurn = None, interrupted = False\<rparr>"

abbreviation inputFragment :: "string \<Rightarrow> LiveServerMessage" where
  "inputFragment t \<equiv>
     \<lparr>serverContent =
        Some (emptyContent\<lparr>inputTranscription := Some \<lparr>transcription_text = Some t\<rparr>\<rparr>)\<rparr>"

abbreviation turnCompleteMessage :: LiveServerMessage where
  "turnCompleteMessage \<equiv> \<lparr>serverContent = Some (emptyContent\<lparr>turnComplete := True\<rparr>)\<rparr>"

abbreviation outputFragment :: "string \<Rightarrow> LiveServerMessage" where
  "outputFragment t \<equiv>
     \<lparr>serverContent =
        Some (emptyContent\<lparr>outputTranscription := Some \<lparr>transcription_text = Some t\<rparr>\<rparr>)\<rparr>"

text \<open>A message that carries the text of the user's turn and completes the turn.\<close>

abbreviation userTurn :: "string \<Rightarrow> LiveServerMessage" where
  "userTurn t \<equiv>
     \<lparr>serverContent =
        Some (emptyContent\<lparr>inputTranscription := Some \<lparr>transcription_text = Some t\<rparr>,
                           turnComplete := True\<rparr>)\<rparr>"

abbreviation audioContent :: "string \<Rightarrow> ServerContent" where
  "audioContent b \<equiv>
     emptyContent\<lparr>modelTurn :=
       Some \<lparr>parts = Some [\<lparr>inlineData = Some \<lparr>inline_data = Some b\<rparr>\<rparr>]\<rparr>\<rparr>"

abbreviation audioMessage :: "string \<Rightarrow> LiveServerMessage" where
  "audioMessage b \<equiv> \<lparr>serverContent = Some (audioContent b)\<rparr>"

abbreviation interruptedMessage :: LiveServerMessage where
  "interruptedMessage \<equiv> \<lparr>serverContent = Some (emptyContent\<lparr>interrupted := True\<rparr>)\<rparr>"

text \<open>A decoder that rejects every payload.\<close>

abbreviation failingDecoder :: Decoder where
  "failingDecoder \<equiv> (\<lambda>b. Inl (Error ''decode''))"

text \<open>A decoder that accepts the payload \<open>AAAA\<close> only, as a buffer of half a second.\<close>

abbreviation pickyDecoder :: Decoder where
  "pickyDecoder \<equiv>
     (\<lambda>b. if b = ''AAAA'' then Inr \<lparr>duration = 1 / 2\<rparr> else Inl (Error ''decode''))"

abbreviation grantedEnv :: StartEnv where
  "grantedEnv \<equiv> \<lparr>apiKey = Some ''key'', getUserMediaRejects = None\<rparr>"

abbreviation deniedEnv :: StartEnv where
  "deniedEnv \<equiv>
     \<lparr>apiKey = Some ''key'',
      getUserMediaRejects = Some (DOMException ''NotAllowedError'' ''Permission denied'')\<rparr>"

section \<open>Properties\<close>

lemmas message_defs =
  handleMessage_def transcriptStep_def accumulate_def appendText_def turnCompleted_def
  flushTurn_def audioStep_def base64Audio_def playChunk_def interruptStep_def
  wasInterrupted_def stopAll_def

lemmas string_defs = trim_def isWhiteSpace_def show_int_def show_nat.simps

lemmas session_defs =
  startRequest_def startSession_def startReset_def startSetup_def startFailed_def onopen_def
  closeRequest_def closeSession_def channelError_def handleError_def handleClose_def
  unmountCleanup_def runReaction_def reactionCall_def initialHook_def INPUT_SAMPLE_RATE_def OUTPUT_SAMPLE_RATE_def stopAll_def

subsection \<open>The example session\<close>

text \<open>A first session, started with microphone access granted, after the channel opened.\<close>

lemma connected_example:
  "onopen (startRequest grantedEnv initialHook) =
     \<lparr>connectionState = CONNECTED, transcript = [], analyserNode = True, errorMessage = None,
      aiRef = True, sessionPromiseRef = True, inputAudioContextRef = Some 16000,
      outputAudioContextRef = Some 24000, scriptProcessorRef = True,
      mediaStreamSourceRef = True, nextStartTimeRef = 0, sourcesRef = [],
      currentInputTranscriptionRef = [], currentOutputTranscriptionRef = [],
      allocated = 0, callbacksClosure = Some IDLE, reactions = [],
      trace = [SetConnectionState CONNECTING, SetAnalyserNode True,
               SetConnectionState CONNECTED]\<rparr>"
  by (simp add: session_defs Let_def)

text \<open>The same session after one chunk of half a second, handled at clock time 1.\<close>

lemma one_chunk_example:
  "snd (handleMessage pickyDecoder (exampleEnv 0 1) (audioMessage ''AAAA'')
          (onopen (startRequest grantedEnv initialHook))) =
     \<lparr>connectionState = CONNECTED, transcript = [], analyserNode = True, errorMessage = None,
      aiRef = True, sessionPromiseRef = True, inputAudioContextRef = Some 16000,
      outputAudioContextRef = Some 24000, scriptProcessorRef = True,
      mediaStreamSourceRef = True, nextStartTimeRef = 3 / 2,
      sourcesRef = [\<lparr>node_id = 0, node_buffer = \<lparr>duration = 1 / 2\<rparr>\<rparr>],
      currentInputTranscriptionRef = [], currentOutputTranscriptionRef = [],
      allocated = 1, callbacksClosure = Some IDLE, reactions = [],
      trace = [SetConnectionState CONNECTING, SetAnalyserNode True,
               SetConnectionState CONNECTED, SourceStart 0 1]\<rparr>"
  unfolding connected_example by (simp add: message_defs Let_def)

text \<open>
  A session that was restarted: the first start was denied the microphone and ended
  in \<open>ERROR\<close>, the second start was granted it, and the channel opened.
\<close>

lemma restarted_example:
  "onopen (startRequest grantedEnv (startRequest deniedEnv initialHook)) =
     \<lparr>connectionState = CONNECTED, transcript = [], analyserNode = True, errorMessage = None,
      aiRef = True, sessionPromiseRef = True, inputAudioContextRef = Some 16000,
      outputAudioContextRef = Some 24000, scriptProcessorRef = True,
      mediaStreamSourceRef = True, nextStartTimeRef = 0, sourcesRef = [],
      currentInputTranscriptionRef = [], currentOutputTranscriptionRef = [],
      allocated = 0, callbacksClosure = Some ERROR, reactions = [],
      trace = [SetConnectionState CONNECTING, SetConnectionState ERROR,
               SetConnectionState CONNECTING, SetAnalyserNode True,
               SetConnectionState CONNECTED]\<rparr>"
  by (simp add: session_defs Let_def)

text \<open>
  The first session after a completed user turn and one more output fragment, closed
  by the far end.
\<close>

lemma ended_session_example:
  "handleClose
     (snd (handleMessage pickyDecoder (exampleEnv 1000 1) (outputFragment ''part'')
        (snd (handleMessage pickyDecoder (exampleEnv 1000 1) (userTurn ''hi'')
           (onopen (startRequest grantedEnv initialHook)))))) =
     \<lparr>connectionState = CLOSED,
      transcript = [\<lparr>entry_id = ''user-1000'', entry_role = USER, entry_text = ''hi''\<rparr>],
      analyserNode = True, errorMessage = None,
      aiRef = True, sessionPromiseRef = True, inputAudioContextRef = Some 16000,
      outputAudioContextRef = Some 24000, scriptProcessorRef = True,
      mediaStreamSourceRef = True, nextStartTimeRef = 0, sourcesRef = [],
      currentInputTranscriptionRef = [], currentOutputTranscriptionRef = ''part'',
      allocated = 0, callbacksClosure = Some IDLE, reactions = [],
      trace = [SetConnectionState CONNECTING, SetAnalyserNode True,
               SetConnectionState CONNECTED, SetConnectionState CLOSED]\<rparr>"
  unfolding connected_example by (simp add: message_defs string_defs handleClose_def Let_def)

subsection \<open>The stages of handleMessage\<close>

lemma handleMessage_stages:
  "handleMessage dec env m s =
     (let r = audioStep dec env (serverContent m) (transcriptStep env (serverContent m) s)
      in (fst r, if fst r = Resolved then interruptStep (serverContent m) (snd r) else snd r))"
  by (simp add: handleMessage_def Let_def split: prod.split Outcome.split)

text \<open>The transcript stage leaves the session and playback fields alone.\<close>

lemma transcriptStep_frame:
  "nextStartTimeRef (transcriptStep env sc s) = nextStartTimeRef s
   \<and> sourcesRef (transcriptStep env sc s) = sourcesRef s
   \<and> allocated (transcriptStep env sc s) = allocated s
   \<and> trace (transcriptStep env sc s) = trace s
   \<and> outputAudioContextRef (transcriptStep env sc s) = outputAudioContextRef s
   \<and> connectionState (transcriptStep env sc s) = connectionState s
   \<and> errorMessage (transcriptStep env sc s) = errorMessage s"
  by (simp add: transcriptStep_def flushTurn_def accumulate_def Let_def split: option.split)

text \<open>The audio and interruption stages leave the transcript and session fields alone.\<close>

lemma audioStep_frame:
  "transcript (snd (audioStep dec env sc s)) = transcript s
   \<and> currentInputTranscriptionRef (snd (audioStep dec env sc s)) = currentInputTranscriptionRef s
   \<and> currentOutputTranscriptionRef (snd (audioStep dec env sc s)) = currentOutputTranscriptionRef s
   \<and> connectionState (snd (audioStep dec env sc s)) = connectionState s
   \<and> errorMessage (snd (audioStep dec env sc s)) = errorMessage s
   \<and> outputAudioContextRef (snd (audioStep dec env sc s)) = outputAudioContextRef s"
  by (simp add: audioStep_def playChunk_def Let_def split: sum.split option.split)

lemma interruptStep_frame:
  "transcript (interruptStep sc s) = transcript s
   \<and> currentInputTranscriptionRef (interruptStep sc s) = currentInputTranscriptionRef s
   \<and> currentOutputTranscriptionRef (interruptStep sc s) = currentOutputTranscriptionRef s
   \<and> connectionState (interruptStep sc s) = connectionState s
   \<and> errorMessage (interruptStep sc s) = errorMessage s
   \<and> outputAudioContextRef (interruptStep sc s) = outputAudioContextRef s"
  by (simp add: interruptStep_def stopAll_def)

lemma handleMessage_frame:
  "transcript (snd (handleMessage dec env m s)) = transcript (transcriptStep env (serverContent m) s)
   \<and> currentInputTranscriptionRef (snd (handleMessage dec env m s)) =
       currentInputTranscriptionRef (transcriptStep env (serverContent m) s)
   \<and> currentOutputTranscriptionRef (snd (handleMessage dec env m s)) =
       currentOutputTranscriptionRef (transcriptStep env (serverContent m) s)
   \<and> connectionState (snd (handleMessage dec env m s)) = connectionState s
   \<and> errorMessage (snd (handleMessage dec env m s)) = errorMessage s
   \<and> outputAudioContextRef (snd (handleMessage dec env m s)) = outputAudioContextRef s"
  using transcriptStep_frame [of env "serverContent m" s]
  by (simp add: handleMessage_stages Let_def audioStep_frame interruptStep_frame)

text \<open>What the audio stage does with a payload, by what the decoder answers.\<close>

lemma audioStep_chunk:
  assumes "base64Audio sc = Inr (Some b)" and "b \<noteq> []" and "outputAudioContextRef s \<noteq> None"
    and "dec b = Inr buf"
  shows "audioStep dec env sc s =
           (Resolved,
            s\<lparr>nextStartTimeRef := max (nextStartTimeRef s) (currentTime env) + duration buf,
              allocated := Suc (allocated s),
              trace := trace s @ [SourceStart (allocated s) (max (nextStartTimeRef s) (currentTime env))],
              sourcesRef := sourcesRef s @ [\<lparr>node_id = allocated s, node_buffer = buf\<rparr>]\<rparr>)"
  using assms by (simp add: audioStep_def playChunk_def Let_def)

lemma audioStep_decode_fails:
  assumes "base64Audio sc = Inr (Some b)" and "b \<noteq> []" and "outputAudioContextRef s \<noteq> None"
    and "dec b = Inl e"
  shows "audioStep dec env sc s =
           (Rejected e, s\<lparr>nextStartTimeRef := max (nextStartTimeRef s) (currentTime env)\<rparr>)"
  using assms by (simp add: audioStep_def playChunk_def Let_def)

lemma audioStep_sources:
  "\<exists>ys. sourcesRef (snd (audioStep dec env sc s)) = sourcesRef s @ ys"
  by (simp add: audioStep_def playChunk_def Let_def split: sum.split option.split)

lemma handleMessage_chunk:
  assumes "base64Audio (serverContent m) = Inr (Some b)" and "b \<noteq> []"
    and "outputAudioContextRef s \<noteq> None" and "dec b = Inr buf"
    and "\<not> wasInterrupted (serverContent m)"
  shows "fst (handleMessage dec env m s) = Resolved
    \<and> nextStartTimeRef (snd (handleMessage dec env m s)) =
        max (nextStartTimeRef s) (currentTime env) + duration buf
    \<and> trace (snd (handleMessage dec env m s)) =
        trace s @ [SourceStart (allocated s) (max (nextStartTimeRef s) (currentTime env))]
    \<and> sourcesRef (snd (handleMessage dec env m s)) =
        sourcesRef s @ [\<lparr>node_id = allocated s, node_buffer = buf\<rparr>]
    \<and> allocated (snd (handleMessage dec env m s)) = Suc (allocated s)"
proof -
  define s2 where "s2 = transcriptStep env (serverContent m) s"
  have p: "nextStartTimeRef s2 = nextStartTimeRef s \<and> sourcesRef s2 = sourcesRef s
      \<and> allocated s2 = allocated s \<and> trace s2 = trace s
      \<and> outputAudioContextRef s2 = outputAudioContextRef s"
    unfolding s2_def using transcriptStep_frame [of env "serverContent m" s] by simp
  then have "outputAudioContextRef s2 \<noteq> None" using assms(3) by simp
  from audioStep_chunk [where dec = dec and env = env, OF assms(1) assms(2) this assms(4)]
  have "handleMessage dec env m s =
          (Resolved,
           s2\<lparr>nextStartTimeRef := max (nextStartTimeRef s2) (currentTime env) + duration buf,
              allocated := Suc (allocated s2),
              trace := trace s2 @ [SourceStart (allocated s2) (max (nextStartTimeRef s2) (currentTime env))],
              sourcesRef := sourcesRef s2 @ [\<lparr>node_id = allocated s2, node_buffer = buf\<rparr>]\<rparr>)"
    using assms(5) by (simp add: handleMessage_stages Let_def s2_def interruptStep_def)
  then show ?thesis using p by simp
qed

text \<open>The same without the assumption on the interruption flag: the chunk is started.\<close>

lemma handleMessage_chunk_started:
  assumes "base64Audio (serverContent m) = Inr (Some b)" and "b \<noteq> []"
    and "outputAudioContextRef s \<noteq> None" and "dec b = Inr buf"
  shows "fst (handleMessage dec env m s) = Resolved
    \<and> prefix (trace s @ [SourceStart (allocated s) (max (nextStartTimeRef s) (currentTime env))])
        (trace (snd (handleMessage dec env m s)))"
proof -
  define s2 where "s2 = transcriptStep env (serverContent m) s"
  have p: "nextStartTimeRef s2 = nextStartTimeRef s \<and> sourcesRef s2 = sourcesRef s
      \<and> allocated s2 = allocated s \<and> trace s2 = trace s
      \<and> outputAudioContextRef s2 = outputAudioContextRef s"
    unfolding s2_def using transcriptStep_frame [of env "serverContent m" s] by simp
  then have "outputAudioContextRef s2 \<noteq> None" using assms(3) by simp
  note a = audioStep_chunk [where dec = dec and env = env, OF assms(1) assms(2) this assms(4)]
  have "handleMessage dec env m s =
      (Resolved, interruptStep (serverContent m) (snd (audioStep dec env (serverContent m) s2)))"
    using a by (simp add: handleMessage_stages Let_def s2_def)
  then show ?thesis
    using a p by (simp add: interruptStep_def stopAll_def)
qed

lemma handleMessage_sources_uninterrupted:
  assumes "\<not> wasInterrupted (serverContent m)"
  shows "\<exists>ys. sourcesRef (snd (handleMessage dec env m s)) = sourcesRef s @ ys"
proof -
  define s2 where "s2 = transcriptStep env (serverContent m) s"
  have "sourcesRef s2 = sourcesRef s"
    unfolding s2_def using transcriptStep_frame [of env "serverContent m" s] by simp
  moreover have "snd (handleMessage dec env m s) = snd (audioStep dec env (serverContent m) s2)"
    using assms by (simp add: handleMessage_stages Let_def s2_def interruptStep_def)
  ultimately show ?thesis
    using audioStep_sources [of dec env "serverContent m" s2] by simp
qed

text \<open>
  The interruption flag is read by the last branch of the handler only: the handler
  of a message with the flag is the handler of the same message without it, followed
  by the stop of all sources when that handler is not rejected.
\<close>

lemma interrupted_flag_unread:
  "transcriptStep env (Some (c\<lparr>interrupted := f\<rparr>)) s = transcriptStep env (Some c) s"
  "audioStep dec env (Some (c\<lparr>interrupted := f\<rparr>)) s = audioStep dec env (Some c) s"
  by (simp_all add: transcriptStep_def accumulate_def turnCompleted_def audioStep_def
      base64Audio_def)

lemma handleMessage_interrupted:
  "handleMessage dec env (m\<lparr>serverContent := Some (c\<lparr>interrupted := True\<rparr>)\<rparr>) s =
     (case handleMessage dec env (m\<lparr>serverContent := Some (c\<lparr>interrupted := False\<rparr>)\<rparr>) s of
        (Resolved, s') \<Rightarrow> (Resolved, stopAll s')
      | (Rejected e, s') \<Rightarrow> (Rejected e, s'))"
proof -
  define r where "r = audioStep dec env (Some c) (transcriptStep env (Some c) s)"
  have t: "handleMessage dec env (m\<lparr>serverContent := Some (c\<lparr>interrupted := True\<rparr>)\<rparr>) s =
      (case r of (Rejected e, s3) \<Rightarrow> (Rejected e, s3) | (Resolved, s3) \<Rightarrow> (Resolved, stopAll s3))"
    by (simp add: handleMessage_def Let_def interrupted_flag_unread r_def interruptStep_def
        wasInterrupted_def split: prod.split Outcome.split)
  have f: "handleMessage dec env (m\<lparr>serverContent := Some (c\<lparr>interrupted := False\<rparr>)\<rparr>) s =
      (case r of (Rejected e, s3) \<Rightarrow> (Rejected e, s3) | (Resolved, s3) \<Rightarrow> (Resolved, s3))"
    by (simp add: handleMessage_def Let_def interrupted_flag_unread r_def interruptStep_def
        wasInterrupted_def split: prod.split Outcome.split)
  show ?thesis
    unfolding t f by (cases r) (simp split: Outcome.split)
qed

text \<open>A message without its audio part and its interruption flag: the transcript stage alone.\<close>

lemma chunk_removed:
  "handleMessage dec env (m\<lparr>serverContent := Some (c\<lparr>modelTurn := None, interrupted := False\<rparr>)\<rparr>) s =
     (Resolved, transcriptStep env (Some c) s)"
  by (simp add: handleMessage_def Let_def transcriptStep_def accumulate_def turnCompleted_def
      audioStep_def base64Audio_def interruptStep_def wasInterrupted_def)

subsection \<open>Trimming\<close>

text \<open>
  The spec's trimming determines the trimmed text: whatever satisfies \<open>specTrim\<close> for a
  text is the \<open>trim\<close> of that text.
\<close>

lemma dropWhile_all: "list_all P xs \<Longrightarrow> dropWhile P (xs @ ys) = dropWhile P ys"
  by (induction xs) simp_all

lemma dropWhile_stops: "t \<noteq> [] \<Longrightarrow> \<not> P (hd t) \<Longrightarrow> dropWhile P (t @ ys) = t @ ys"
  by (cases t) simp_all

lemma dropWhile_all_nil: "list_all P xs \<Longrightarrow> dropWhile P xs = []"
  by (induction xs) simp_all

lemma specTrim_unique:
  assumes "specTrim s t"
  shows "t = trim s"
proof -
  obtain pre post where d: "s = pre @ t @ post" "list_all isWhiteSpace pre"
      "list_all isWhiteSpace post"
      "t = [] \<or> (\<not> isWhiteSpace (hd t) \<and> \<not> isWhiteSpace (last t))"
    using assms unfolding specTrim_def by blast
  have rp: "list_all isWhiteSpace (rev post)" using d(3) by (simp add: list_all_iff)
  show ?thesis
  proof (cases "t = []")
    case True
    then have "list_all isWhiteSpace s" using d by simp
    then show ?thesis using True by (simp add: trim_def dropWhile_all_nil)
  next
    case False
    then have e: "\<not> isWhiteSpace (hd t)" "\<not> isWhiteSpace (last t)" using d(4) by simp_all
    have "dropWhile isWhiteSpace s = t @ post"
      using d(1) d(2) False e(1) by (simp add: dropWhile_all dropWhile_stops)
    moreover have "dropWhile isWhiteSpace (rev post @ rev t) = rev t"
      using rp False e(2) dropWhile_stops [of "rev t" isWhiteSpace "[]"]
      by (simp add: dropWhile_all hd_rev)
    ultimately show ?thesis by (simp add: trim_def)
  qed
qed

subsection \<open>Turn accumulation\<close>

text \<open>
  Within a turn each side's buffer grows by the fragments of that side, in the order
  of arrival, whatever else the messages carry and however the two sides interleave.
\<close>

lemma appendText_fragment: "appendText buf tr = buf @ appendText [] tr"
  by (simp add: appendText_def split: option.split)

lemma fragment_accumulates:
  assumes "\<not> turnCompleted (serverContent m)"
  shows "currentInputTranscriptionRef (snd (handleMessage dec env m s)) =
           currentInputTranscriptionRef s @ inputFragmentOf m
    \<and> currentOutputTranscriptionRef (snd (handleMessage dec env m s)) =
           currentOutputTranscriptionRef s @ outputFragmentOf m
    \<and> transcript (snd (handleMessage dec env m s)) = transcript s"
  using assms handleMessage_frame [of dec env m s]
    appendText_fragment [of "currentInputTranscriptionRef s"]
    appendText_fragment [of "currentOutputTranscriptionRef s"]
  by (simp add: transcriptStep_def accumulate_def inputFragmentOf_def outputFragmentOf_def
      split: option.split)

lemma fragments_accumulate:
  assumes "list_all (\<lambda>(env, m). \<not> turnCompleted (serverContent m)) ems"
  shows "currentInputTranscriptionRef (handleMessages dec ems s) =
           currentInputTranscriptionRef s @ concat (map (\<lambda>(env, m). inputFragmentOf m) ems)
    \<and> currentOutputTranscriptionRef (handleMessages dec ems s) =
           currentOutputTranscriptionRef s @ concat (map (\<lambda>(env, m). outputFragmentOf m) ems)
    \<and> transcript (handleMessages dec ems s) = transcript s"
  using assms
proof (induction ems arbitrary: s)
  case Nil
  then show ?case by simp
next
  case (Cons em ems)
  obtain env m where em: "em = (env, m)" by (cases em)
  have "\<not> turnCompleted (serverContent m)" using Cons.prems em by simp
  note f = fragment_accumulates [OF this, of dec env s]
  have "list_all (\<lambda>(env, m). \<not> turnCompleted (serverContent m)) ems" using Cons.prems by simp
  note ih = Cons.IH [OF this, of "snd (handleMessage dec env m s)"]
  show ?case using f ih by (simp add: em)
qed

text \<open>
  C3. A turn: messages without the turn-complete signal, in any number and order,
  followed by a message that carries it. The accumulated text of each side is the
  buffer at the start, then the fragments of that side in order of arrival (those
  of the turn-complete message last). Both are trimmed: the text of each side that
  goes into the transcript is the accumulated text without the white space at its
  two ends, and it is empty exactly when the accumulated text is white space only.
  The transcript grows by one user entry holding the trimmed input text when that
  text is non-empty, followed by one model entry holding the trimmed output text
  when that text is non-empty, and by nothing else (so by no entry when both are
  empty); both buffers are empty afterwards. This holds whatever the handlers do
  with the audio of the messages.
\<close>

theorem turn_complete_appends_entries:
  assumes "list_all (\<lambda>(env, m). \<not> turnCompleted (serverContent m)) ems"
    and "serverContent m = Some c" and "turnComplete c"
  shows "let s' = snd (handleMessage dec env m (handleMessages dec ems s));
             accInput = currentInputTranscriptionRef s
                        @ concat (map (\<lambda>(env, m). inputFragmentOf m) ems)
                        @ inputFragmentOf m;
             accOutput = currentOutputTranscriptionRef s
                         @ concat (map (\<lambda>(env, m). outputFragmentOf m) ems)
                         @ outputFragmentOf m;
             fullInput = trim accInput;
             fullOutput = trim accOutput
         in transcript s' =
              transcript s
              @ (if fullInput = [] then []
                 else [\<lparr>entry_id = ''user-'' @ show_int (dateNowUser env), entry_role = USER,
                        entry_text = fullInput\<rparr>])
              @ (if fullOutput = [] then []
                 else [\<lparr>entry_id = ''model-'' @ show_int (dateNowModel env), entry_role = MODEL,
                        entry_text = fullOutput\<rparr>])
          \<and> specTrim accInput fullInput
          \<and> specTrim accOutput fullOutput
          \<and> (fullInput = []) = list_all isWhiteSpace accInput
          \<and> (fullOutput = []) = list_all isWhiteSpace accOutput
          \<and> currentInputTranscriptionRef s' = []
          \<and> currentOutputTranscriptionRef s' = []"
proof -
  have trimmed: "specTrim x (trim x)" for x
  proof -
    define u where "u = dropWhile isWhiteSpace x"
    define w where "w = dropWhile isWhiteSpace (rev u)"
    have t: "trim x = rev w" by (simp add: trim_def u_def w_def)
    have sx: "x = takeWhile isWhiteSpace x @ u" by (simp add: u_def)
    have "rev u = takeWhile isWhiteSpace (rev u) @ w" by (simp add: w_def)
    then have "rev (rev u) = rev (takeWhile isWhiteSpace (rev u) @ w)" by simp
    then have u: "u = rev w @ rev (takeWhile isWhiteSpace (rev u))" by simp
    have pre: "list_all isWhiteSpace (takeWhile isWhiteSpace x)"
      by (simp add: list_all_iff) (meson set_takeWhileD)
    have post: "list_all isWhiteSpace (rev (takeWhile isWhiteSpace (rev u)))"
      by (simp add: list_all_iff) (meson set_takeWhileD)
    have ends: "rev w = [] \<or> (\<not> isWhiteSpace (hd (rev w)) \<and> \<not> isWhiteSpace (last (rev w)))"
    proof (cases "w = []")
      case True
      then show ?thesis by simp
    next
      case False
      then have hw: "\<not> isWhiteSpace (hd w)" unfolding w_def by (rule hd_dropWhile)
      have un: "u \<noteq> []" using False w_def by auto
      then have hu: "\<not> isWhiteSpace (hd u)" unfolding u_def by (rule hd_dropWhile)
      have "hd u = hd (rev w)" using u False by (metis Nil_is_rev_conv hd_append2)
      then show ?thesis using hw hu False by (simp add: last_rev)
    qed
    have "x = takeWhile isWhiteSpace x @ rev w @ rev (takeWhile isWhiteSpace (rev u))"
      using sx u by simp
    then show ?thesis
      unfolding specTrim_def t using pre post ends by blast
  qed
  have blank: "(trim x = []) = list_all isWhiteSpace x" for x
  proof
    assume "trim x = []"
    then have "specTrim x []" using trimmed [of x] by simp
    then show "list_all isWhiteSpace x" unfolding specTrim_def by auto
  next
    assume "list_all isWhiteSpace x"
    then show "trim x = []" by (simp add: trim_def dropWhile_all_nil)
  qed
  define s1 where "s1 = handleMessages dec ems s"
  have acc: "currentInputTranscriptionRef s1 =
        currentInputTranscriptionRef s @ concat (map (\<lambda>(env, m). inputFragmentOf m) ems)"
      "currentOutputTranscriptionRef s1 =
        currentOutputTranscriptionRef s @ concat (map (\<lambda>(env, m). outputFragmentOf m) ems)"
      "transcript s1 = transcript s"
    using fragments_accumulate [OF assms(1), of dec s] by (simp_all add: s1_def)
  have frag: "appendText (currentInputTranscriptionRef s1) (inputTranscription c) =
        currentInputTranscriptionRef s1 @ inputFragmentOf m"
      "appendText (currentOutputTranscriptionRef s1) (outputTranscription c) =
        currentOutputTranscriptionRef s1 @ outputFragmentOf m"
    using assms(2) appendText_fragment [of "currentInputTranscriptionRef s1"]
      appendText_fragment [of "currentOutputTranscriptionRef s1"]
    by (simp_all add: inputFragmentOf_def outputFragmentOf_def)
  have "transcriptStep env (serverContent m) s1 =
      flushTurn env
        (s1\<lparr>currentOutputTranscriptionRef := currentOutputTranscriptionRef s1 @ outputFragmentOf m,
            currentInputTranscriptionRef := currentInputTranscriptionRef s1 @ inputFragmentOf m\<rparr>)"
    using assms(2) assms(3) frag
    by (simp add: transcriptStep_def turnCompleted_def accumulate_def)
  then show ?thesis
    using handleMessage_frame [of dec env m s1] acc
    by (simp add: s1_def [symmetric] flushTurn_def Let_def trimmed blank)
qed

text \<open>
  Three turns, each from the initial state. The fragments \<open>Hel\<close> and \<open>lo\<close> on the
  input side, padded with blanks and a line feed, and a blank and a tabulator on the
  output side: exactly one entry, the user entry \<open>Hello\<close>. White space only on both
  sides: no entry. Text on both sides, the output fragment arriving first: the user
  entry, then the model entry, both without the padding.
\<close>

theorem turn_complete_appends_entries_witness:
  "transcript
     (snd (handleMessage failingDecoder (exampleEnv 1000 0) turnCompleteMessage
        (handleMessages failingDecoder
           [(exampleEnv 1000 0, inputFragment ''  Hel''),
            (exampleEnv 1000 0, outputFragment [CHR 0x20, CHR 0x09]),
            (exampleEnv 1000 0, inputFragment (''lo '' @ [CHR 0x0A]))]
           initialHook)))
   = [\<lparr>entry_id = ''user-1000'', entry_role = USER, entry_text = ''Hello''\<rparr>]
   \<and> transcript
     (snd (handleMessage failingDecoder (exampleEnv 1000 0) turnCompleteMessage
        (handleMessages failingDecoder
           [(exampleEnv 1000 0, inputFragment [CHR 0x0D, CHR 0x0A]),
            (exampleEnv 1000 0, outputFragment [CHR 0xA0, CHR 0x20])]
           initialHook)))
   = []
   \<and> transcript
     (snd (handleMessage failingDecoder (exampleEnv 1000 0) turnCompleteMessage
        (handleMessages failingDecoder
           [(exampleEnv 1000 0, outputFragment '' yo''),
            (exampleEnv 1000 0, inputFragment ''hi '')]
           initialHook)))
   = [\<lparr>entry_id = ''user-1000'', entry_role = USER, entry_text = ''hi''\<rparr>,
      \<lparr>entry_id = ''model-1000'', entry_role = MODEL, entry_text = ''yo''\<rparr>]"
proof -
  have trims:
    "trim (''  Hel'' @ ''lo '' @ [CHR 0x0A]) = ''Hello''"
    "trim [CHR 0x20, CHR 0x09] = []"
    "trim [CHR 0x0D, CHR 0x0A] = []"
    "trim [CHR 0xA0, CHR 0x20] = []"
    "trim ''hi '' = ''hi''"
    "trim '' yo'' = ''yo''"
    by (simp_all add: trim_def isWhiteSpace_def)
  have ids: "show_int 1000 = ''1000''"
    by (simp add: show_int_def show_nat.simps)
  note turn = turn_complete_appends_entries
    [where m = turnCompleteMessage and c = "emptyContent\<lparr>turnComplete := True\<rparr>"
       and dec = failingDecoder and env = "exampleEnv 1000 0" and s = initialHook]
  have 1: "transcript
     (snd (handleMessage failingDecoder (exampleEnv 1000 0) turnCompleteMessage
        (handleMessages failingDecoder
           [(exampleEnv 1000 0, inputFragment ''  Hel''),
            (exampleEnv 1000 0, outputFragment [CHR 0x20, CHR 0x09]),
            (exampleEnv 1000 0, inputFragment (''lo '' @ [CHR 0x0A]))]
           initialHook)))
   = [\<lparr>entry_id = ''user-1000'', entry_role = USER, entry_text = ''Hello''\<rparr>]"
    using turn [where ems = "[(exampleEnv 1000 0, inputFragment ''  Hel''),
            (exampleEnv 1000 0, outputFragment [CHR 0x20, CHR 0x09]),
            (exampleEnv 1000 0, inputFragment (''lo '' @ [CHR 0x0A]))]"] trims ids
    by (simp add: turnCompleted_def inputFragmentOf_def outputFragmentOf_def appendText_def
        initialHook_def Let_def)
  have 2: "transcript
     (snd (handleMessage failingDecoder (exampleEnv 1000 0) turnCompleteMessage
        (handleMessages failingDecoder
           [(exampleEnv 1000 0, inputFragment [CHR 0x0D, CHR 0x0A]),
            (exampleEnv 1000 0, outputFragment [CHR 0xA0, CHR 0x20])]
           initialHook)))
   = []"
    using turn [where ems = "[(exampleEnv 1000 0, inputFragment [CHR 0x0D, CHR 0x0A]),
            (exampleEnv 1000 0, outputFragment [CHR 0xA0, CHR 0x20])]"] trims ids
    by (simp add: turnCompleted_def inputFragmentOf_def outputFragmentOf_def appendText_def
        initialHook_def Let_def)
  have 3: "transcript
     (snd (handleMessage failingDecoder (exampleEnv 1000 0) turnCompleteMessage
        (handleMessages failingDecoder
           [(exampleEnv 1000 0, outputFragment '' yo''),
            (exampleEnv 1000 0, inputFragment ''hi '')]
           initialHook)))
   = [\<lparr>entry_id = ''user-1000'', entry_role = USER, entry_text = ''hi''\<rparr>,
      \<lparr>entry_id = ''model-1000'', entry_role = MODEL, entry_text = ''yo''\<rparr>]"
    using turn [where ems = "[(exampleEnv 1000 0, outputFragment '' yo''),
            (exampleEnv 1000 0, inputFragment ''hi '')]"] trims ids
    by (simp add: turnCompleted_def inputFragmentOf_def outputFragmentOf_def appendText_def
        initialHook_def Let_def)
  show ?thesis using 1 2 3 by simp
qed

subsection \<open>Playback scheduling\<close>

text \<open>
  C1. Two audio chunks handled one after the other while the output context exists
  (each a non-empty payload that the decoder accepts, in a message without the
  interruption flag). For the first chunk the cursor is clamped to \<open>start1\<close>, the
  maximum of the cursor and the clock, so \<open>start1\<close> is not before the clock; the
  source is started exactly at \<open>start1\<close>; the cursor is then \<open>start1\<close> plus the
  buffer's duration. The second chunk starts at \<open>start2\<close>: when its clock reading is
  not past the cursor, \<open>start2 = start1 + duration buf1\<close> (no gap); when it is past
  the cursor, \<open>start2\<close> is the clock reading.
\<close>

theorem chunks_play_back_to_back:
  assumes "base64Audio (serverContent m1) = Inr (Some b1)" and "b1 \<noteq> []" and "dec b1 = Inr buf1"
    and "\<not> wasInterrupted (serverContent m1)"
    and "base64Audio (serverContent m2) = Inr (Some b2)" and "b2 \<noteq> []" and "dec b2 = Inr buf2"
    and "\<not> wasInterrupted (serverContent m2)"
    and "outputAudioContextRef s \<noteq> None"
  shows "let s1 = snd (handleMessage dec env1 m1 s);
             s2 = snd (handleMessage dec env2 m2 s1);
             start1 = max (nextStartTimeRef s) (currentTime env1);
             start2 = max (nextStartTimeRef s1) (currentTime env2)
         in fst (handleMessage dec env1 m1 s) = Resolved
          \<and> nextStartTimeRef s \<le> start1 \<and> currentTime env1 \<le> start1
          \<and> trace s1 = trace s @ [SourceStart (allocated s) start1]
          \<and> sourcesRef s1 = sourcesRef s @ [\<lparr>node_id = allocated s, node_buffer = buf1\<rparr>]
          \<and> nextStartTimeRef s1 = start1 + duration buf1
          \<and> fst (handleMessage dec env2 m2 s1) = Resolved
          \<and> trace s2 = trace s1 @ [SourceStart (Suc (allocated s)) start2]
          \<and> nextStartTimeRef s2 = start2 + duration buf2
          \<and> (if currentTime env2 \<le> start1 + duration buf1
              then start2 = start1 + duration buf1
              else start2 = currentTime env2)"
proof -
  note h1 = handleMessage_chunk
    [where dec = dec and env = env1, OF assms(1) assms(2) assms(9) assms(3) assms(4)]
  have "outputAudioContextRef (snd (handleMessage dec env1 m1 s)) \<noteq> None"
    using assms(9) handleMessage_frame [of dec env1 m1 s] by simp
  note h2 = handleMessage_chunk
    [where dec = dec and env = env2, OF assms(5) assms(6) this assms(7) assms(8)]
  show ?thesis using h1 h2 by (simp add: Let_def max_def)
qed

text \<open>
  After a chunk of half a second started at clock time 1, a chunk that arrives at
  clock time 1.2 starts at 1.5, and one that arrives at clock time 2 starts at 2.
\<close>

theorem chunks_play_back_to_back_witness:
  "trace (snd (handleMessage pickyDecoder (exampleEnv 0 (6 / 5)) (audioMessage ''AAAA'')
       (snd (handleMessage pickyDecoder (exampleEnv 0 1) (audioMessage ''AAAA'')
          (onopen (startRequest grantedEnv initialHook))))))
     = [SetConnectionState CONNECTING, SetAnalyserNode True, SetConnectionState CONNECTED,
        SourceStart 0 1, SourceStart 1 (3 / 2)]
   \<and> trace (snd (handleMessage pickyDecoder (exampleEnv 0 2) (audioMessage ''AAAA'')
       (snd (handleMessage pickyDecoder (exampleEnv 0 1) (audioMessage ''AAAA'')
          (onopen (startRequest grantedEnv initialHook))))))
     = [SetConnectionState CONNECTING, SetAnalyserNode True, SetConnectionState CONNECTED,
        SourceStart 0 1, SourceStart 1 2]"
  using chunks_play_back_to_back
      [where dec = pickyDecoder and ?m1.0 = "audioMessage ''AAAA''" and ?b1.0 = "''AAAA''"
         and ?buf1.0 = "\<lparr>duration = 1 / 2\<rparr>" and ?m2.0 = "audioMessage ''AAAA''"
         and ?b2.0 = "''AAAA''" and ?buf2.0 = "\<lparr>duration = 1 / 2\<rparr>"
         and s = "onopen (startRequest grantedEnv initialHook)"
         and ?env1.0 = "exampleEnv 0 1" and ?env2.0 = "exampleEnv 0 (6 / 5)"]
    chunks_play_back_to_back
      [where dec = pickyDecoder and ?m1.0 = "audioMessage ''AAAA''" and ?b1.0 = "''AAAA''"
         and ?buf1.0 = "\<lparr>duration = 1 / 2\<rparr>" and ?m2.0 = "audioMessage ''AAAA''"
         and ?b2.0 = "''AAAA''" and ?buf2.0 = "\<lparr>duration = 1 / 2\<rparr>"
         and s = "onopen (startRequest grantedEnv initialHook)"
         and ?env1.0 = "exampleEnv 0 1" and ?env2.0 = "exampleEnv 0 2"]
  by (simp add: connected_example base64Audio_def wasInterrupted_def Let_def)

subsection \<open>Interruption\<close>

text \<open>
  When the handler reaches its interruption branch: when line 59 does not throw and
  the payload, if one is played, decodes.
\<close>

lemma handleMessage_resolved_iff:
  "fst (handleMessage dec env m s) = Resolved \<longleftrightarrow>
     (case base64Audio (serverContent m) of
        Inl e \<Rightarrow> False
      | Inr None \<Rightarrow> True
      | Inr (Some b) \<Rightarrow> b = [] \<or> outputAudioContextRef s = None \<or> (\<exists>buf. dec b = Inr buf))"
proof -
  have "outputAudioContextRef (transcriptStep env (serverContent m) s) = outputAudioContextRef s"
    using transcriptStep_frame [of env "serverContent m" s] by simp
  then show ?thesis
    by (auto simp add: handleMessage_stages Let_def audioStep_def playChunk_def
        split: sum.split option.split)
qed

text \<open>
  C2, as amended. A message with the interruption flag. \<open>before\<close> is the state the
  handler reaches before its interruption branch: the sources then in flight are
  those in flight when the message arrived and the one the message itself
  scheduled, if any. When the handler is not rejected before that branch, every one
  of these sources is stopped, in order; the set is empty and the cursor is 0
  afterwards, and a chunk handled next, at a clock reading that is not negative, is
  started at that clock reading. When the handler is rejected before that branch
  (line 59 throws, or the payload fails to decode), the interruption is not
  processed: the state is \<open>before\<close>, with nothing stopped.
\<close>

theorem interruption_stops_all_sources:
  assumes "serverContent m = Some c" and "interrupted c"
    and "base64Audio (serverContent m2) = Inr (Some b2)" and "b2 \<noteq> []" and "dec b2 = Inr buf2"
    and "outputAudioContextRef s \<noteq> None" and "0 \<le> currentTime env2"
  shows "let s1 = snd (handleMessage dec env m s);
             before = snd (handleMessage dec env (m\<lparr>serverContent := Some (c\<lparr>interrupted := False\<rparr>)\<rparr>) s);
             s2 = snd (handleMessage dec env2 m2 s1)
         in set (sourcesRef s) \<subseteq> set (sourcesRef before)
          \<and> (fst (handleMessage dec env m s) = Resolved \<longrightarrow>
                trace s1 = trace before @ map (\<lambda>source. SourceStop (node_id source)) (sourcesRef before)
              \<and> sourcesRef s1 = []
              \<and> nextStartTimeRef s1 = 0
              \<and> fst (handleMessage dec env2 m2 s1) = Resolved
              \<and> prefix (trace s1 @ [SourceStart (allocated s1) (currentTime env2)]) (trace s2))
          \<and> (fst (handleMessage dec env m s) \<noteq> Resolved \<longrightarrow> s1 = before)"
proof -
  define mF where "mF = m\<lparr>serverContent := Some (c\<lparr>interrupted := False\<rparr>)\<rparr>"
  have m: "m = m\<lparr>serverContent := Some (c\<lparr>interrupted := True\<rparr>)\<rparr>"
    using assms(1) assms(2) by simp
  obtain out before where f: "handleMessage dec env mF s = (out, before)"
    by (cases "handleMessage dec env mF s")
  have t: "handleMessage dec env m s =
      (case out of Resolved \<Rightarrow> (Resolved, stopAll before) | Rejected e \<Rightarrow> (Rejected e, before))"
    using handleMessage_interrupted [where dec = dec and env = env and m = m and c = c and s = s] m f
    by (simp add: mF_def split: Outcome.split)
  have "\<not> wasInterrupted (serverContent mF)" by (simp add: mF_def wasInterrupted_def)
  from handleMessage_sources_uninterrupted [OF this, of dec env s]
  have grow: "set (sourcesRef s) \<subseteq> set (sourcesRef before)" using f by auto
  have rejected: "fst (handleMessage dec env m s) \<noteq> Resolved \<longrightarrow>
      snd (handleMessage dec env m s) = before"
    using t by (cases out) simp_all
  have resolved: "fst (handleMessage dec env m s) = Resolved \<longrightarrow>
        trace (snd (handleMessage dec env m s)) =
          trace before @ map (\<lambda>source. SourceStop (node_id source)) (sourcesRef before)
      \<and> sourcesRef (snd (handleMessage dec env m s)) = []
      \<and> nextStartTimeRef (snd (handleMessage dec env m s)) = 0
      \<and> fst (handleMessage dec env2 m2 (snd (handleMessage dec env m s))) = Resolved
      \<and> prefix (trace (snd (handleMessage dec env m s))
                 @ [SourceStart (allocated (snd (handleMessage dec env m s))) (currentTime env2)])
           (trace (snd (handleMessage dec env2 m2 (snd (handleMessage dec env m s)))))"
  proof
    assume r: "fst (handleMessage dec env m s) = Resolved"
    then have out: "out = Resolved" using t by (cases out) simp_all
    then have s1: "snd (handleMessage dec env m s) = stopAll before" using t by simp
    have "outputAudioContextRef (snd (handleMessage dec env m s)) \<noteq> None"
      using assms(6) handleMessage_frame [of dec env m s] by simp
    note n = handleMessage_chunk_started
      [where dec = dec and env = env2, OF assms(3) assms(4) this assms(5)]
    have "nextStartTimeRef (snd (handleMessage dec env m s)) = 0"
      by (simp add: s1 stopAll_def)
    then have "max (nextStartTimeRef (snd (handleMessage dec env m s))) (currentTime env2)
        = currentTime env2"
      using assms(7) by simp
    then show "trace (snd (handleMessage dec env m s)) =
          trace before @ map (\<lambda>source. SourceStop (node_id source)) (sourcesRef before)
      \<and> sourcesRef (snd (handleMessage dec env m s)) = []
      \<and> nextStartTimeRef (snd (handleMessage dec env m s)) = 0
      \<and> fst (handleMessage dec env2 m2 (snd (handleMessage dec env m s))) = Resolved
      \<and> prefix (trace (snd (handleMessage dec env m s))
                 @ [SourceStart (allocated (snd (handleMessage dec env m s))) (currentTime env2)])
           (trace (snd (handleMessage dec env2 m2 (snd (handleMessage dec env m s)))))"
      using n by (simp add: s1 [symmetric]) (simp add: s1 stopAll_def)
  qed
  have b: "snd (handleMessage dec env mF s) = before" using f by simp
  show ?thesis
    unfolding Let_def mF_def [symmetric] b using grow resolved rejected by blast
qed

text \<open>
  One source in flight and the cursor at 1.5; after the interruption the set is
  empty and the cursor 0, and a chunk that arrives at clock time 1.3 starts at 1.3.
\<close>

theorem interruption_stops_all_sources_witness:
  "sourcesRef (snd (handleMessage pickyDecoder (exampleEnv 0 (6 / 5)) interruptedMessage
       (snd (handleMessage pickyDecoder (exampleEnv 0 1) (audioMessage ''AAAA'')
          (onopen (startRequest grantedEnv initialHook)))))) = []
   \<and> nextStartTimeRef (snd (handleMessage pickyDecoder (exampleEnv 0 (6 / 5)) interruptedMessage
       (snd (handleMessage pickyDecoder (exampleEnv 0 1) (audioMessage ''AAAA'')
          (onopen (startRequest grantedEnv initialHook)))))) = 0
   \<and> trace (snd (handleMessage pickyDecoder (exampleEnv 0 (13 / 10)) (audioMessage ''AAAA'')
       (snd (handleMessage pickyDecoder (exampleEnv 0 (6 / 5)) interruptedMessage
          (snd (handleMessage pickyDecoder (exampleEnv 0 1) (audioMessage ''AAAA'')
             (onopen (startRequest grantedEnv initialHook)))))))) =
      [SetConnectionState CONNECTING, SetAnalyserNode True, SetConnectionState CONNECTED,
       SourceStart 0 1, SourceStop 0, SourceStart 1 (13 / 10)]"
  using interruption_stops_all_sources
     [where m = interruptedMessage and c = "emptyContent\<lparr>interrupted := True\<rparr>"
        and dec = pickyDecoder and env = "exampleEnv 0 (6 / 5)"
        and s = "snd (handleMessage pickyDecoder (exampleEnv 0 1) (audioMessage ''AAAA'')
                   (onopen (startRequest grantedEnv initialHook)))"
        and ?m2.0 = "audioMessage ''AAAA''" and ?b2.0 = "''AAAA''"
        and ?buf2.0 = "\<lparr>duration = 1 / 2\<rparr>" and ?env2.0 = "exampleEnv 0 (13 / 10)"]
  unfolding one_chunk_example by (simp add: message_defs Let_def)

text \<open>
  C2, as stated, speaks of every interruption signal received. With one source in
  flight and the cursor at 1.5, a message that carries the interruption flag and a
  model turn without parts is rejected at line 59, and one that carries the flag
  and a payload that fails to decode is rejected at line 62, here at clock time 2:
  the source stays in flight, no stop is made, and the cursor is 1.5 and 2, not 0.
\<close>

theorem received_interruption_not_processed_counterexample:
  "fst (handleMessage pickyDecoder (exampleEnv 0 (6 / 5))
          \<lparr>serverContent = Some (emptyContent\<lparr>modelTurn := Some \<lparr>parts = None\<rparr>,
                                               interrupted := True\<rparr>)\<rparr>
          (snd (handleMessage pickyDecoder (exampleEnv 0 1) (audioMessage ''AAAA'')
             (onopen (startRequest grantedEnv initialHook)))))
     = Rejected (Error ''TypeError'')
   \<and> sourcesRef (snd (handleMessage pickyDecoder (exampleEnv 0 (6 / 5))
          \<lparr>serverContent = Some (emptyContent\<lparr>modelTurn := Some \<lparr>parts = None\<rparr>,
                                               interrupted := True\<rparr>)\<rparr>
          (snd (handleMessage pickyDecoder (exampleEnv 0 1) (audioMessage ''AAAA'')
             (onopen (startRequest grantedEnv initialHook))))))
     = [\<lparr>node_id = 0, node_buffer = \<lparr>duration = 1 / 2\<rparr>\<rparr>]
   \<and> nextStartTimeRef (snd (handleMessage pickyDecoder (exampleEnv 0 (6 / 5))
          \<lparr>serverContent = Some (emptyContent\<lparr>modelTurn := Some \<lparr>parts = None\<rparr>,
                                               interrupted := True\<rparr>)\<rparr>
          (snd (handleMessage pickyDecoder (exampleEnv 0 1) (audioMessage ''AAAA'')
             (onopen (startRequest grantedEnv initialHook))))))
     = 3 / 2
   \<and> sourcesRef (snd (handleMessage pickyDecoder (exampleEnv 0 2)
          \<lparr>serverContent = Some ((audioContent ''????'')\<lparr>interrupted := True\<rparr>)\<rparr>
          (snd (handleMessage pickyDecoder (exampleEnv 0 1) (audioMessage ''AAAA'')
             (onopen (startRequest grantedEnv initialHook))))))
     = [\<lparr>node_id = 0, node_buffer = \<lparr>duration = 1 / 2\<rparr>\<rparr>]
   \<and> nextStartTimeRef (snd (handleMessage pickyDecoder (exampleEnv 0 2)
          \<lparr>serverContent = Some ((audioContent ''????'')\<lparr>interrupted := True\<rparr>)\<rparr>
          (snd (handleMessage pickyDecoder (exampleEnv 0 1) (audioMessage ''AAAA'')
             (onopen (startRequest grantedEnv initialHook))))))
     = 2
   \<and> trace (snd (handleMessage pickyDecoder (exampleEnv 0 2)
          \<lparr>serverContent = Some ((audioContent ''????'')\<lparr>interrupted := True\<rparr>)\<rparr>
          (snd (handleMessage pickyDecoder (exampleEnv 0 1) (audioMessage ''AAAA'')
             (onopen (startRequest grantedEnv initialHook))))))
     = [SetConnectionState CONNECTING, SetAnalyserNode True, SetConnectionState CONNECTED,
        SourceStart 0 1]"
  unfolding one_chunk_example by (simp add: message_defs Let_def)

text \<open>
  C10. The interruption flag of a message changes nothing but playback state: the
  states reached with the flag set and with the flag cleared agree on the
  transcript, both accumulating buffers, the connection state and the error
  message, and on every other field except the set of sources, the cursor and the
  log of calls on the sources. A message that carries the flag alone leaves the
  state as it was but for an empty set of sources, a cursor of 0 and the logged
  stops.
\<close>

theorem interruption_changes_playback_only:
  "(let sT = snd (handleMessage dec env (m\<lparr>serverContent := Some (c\<lparr>interrupted := True\<rparr>)\<rparr>) s);
        sF = snd (handleMessage dec env (m\<lparr>serverContent := Some (c\<lparr>interrupted := False\<rparr>)\<rparr>) s)
    in transcript sT = transcript sF
     \<and> currentInputTranscriptionRef sT = currentInputTranscriptionRef sF
     \<and> currentOutputTranscriptionRef sT = currentOutputTranscriptionRef sF
     \<and> connectionState sT = connectionState sF
     \<and> errorMessage sT = errorMessage sF
     \<and> sT = sF\<lparr>sourcesRef := sourcesRef sT, nextStartTimeRef := nextStartTimeRef sT,
                trace := trace sT\<rparr>)
   \<and> snd (handleMessage dec env interruptedMessage s) =
       s\<lparr>sourcesRef := [], nextStartTimeRef := 0,
         trace := trace s @ map (\<lambda>source. SourceStop (node_id source)) (sourcesRef s)\<rparr>"
proof -
  obtain out sF where f:
    "handleMessage dec env (m\<lparr>serverContent := Some (c\<lparr>interrupted := False\<rparr>)\<rparr>) s = (out, sF)"
    by (cases "handleMessage dec env (m\<lparr>serverContent := Some (c\<lparr>interrupted := False\<rparr>)\<rparr>) s")
  have t: "snd (handleMessage dec env (m\<lparr>serverContent := Some (c\<lparr>interrupted := True\<rparr>)\<rparr>) s) =
      (case out of Resolved \<Rightarrow> stopAll sF | Rejected e \<Rightarrow> sF)"
    by (simp add: handleMessage_interrupted f split: Outcome.split)
  have 1: "let sT = snd (handleMessage dec env (m\<lparr>serverContent := Some (c\<lparr>interrupted := True\<rparr>)\<rparr>) s);
        sF = snd (handleMessage dec env (m\<lparr>serverContent := Some (c\<lparr>interrupted := False\<rparr>)\<rparr>) s)
    in transcript sT = transcript sF
     \<and> currentInputTranscriptionRef sT = currentInputTranscriptionRef sF
     \<and> currentOutputTranscriptionRef sT = currentOutputTranscriptionRef sF
     \<and> connectionState sT = connectionState sF
     \<and> errorMessage sT = errorMessage sF
     \<and> sT = sF\<lparr>sourcesRef := sourcesRef sT, nextStartTimeRef := nextStartTimeRef sT,
                trace := trace sT\<rparr>"
    unfolding t f by (cases out) (simp_all add: stopAll_def Let_def)
  have 2: "snd (handleMessage dec env interruptedMessage s) =
       s\<lparr>sourcesRef := [], nextStartTimeRef := 0,
         trace := trace s @ map (\<lambda>source. SourceStop (node_id source)) (sourcesRef s)\<rparr>"
    by (simp add: message_defs)
  show ?thesis using 1 2 by blast
qed

text \<open>
  A message that completes a turn and carries the flag, handled with one source in
  flight: the transcript gets the same entry with and without the flag; with the
  flag the set of sources is emptied.
\<close>

theorem interruption_changes_playback_only_witness:
  "transcript (snd (handleMessage pickyDecoder (exampleEnv 1000 1)
      \<lparr>serverContent = Some (emptyContent\<lparr>inputTranscription := Some \<lparr>transcription_text = Some ''hi''\<rparr>,
            turnComplete := True, interrupted := True\<rparr>)\<rparr>
      (snd (handleMessage pickyDecoder (exampleEnv 0 1) (audioMessage ''AAAA'')
          (onopen (startRequest grantedEnv initialHook))))))
   = [\<lparr>entry_id = ''user-1000'', entry_role = USER, entry_text = ''hi''\<rparr>]
   \<and> transcript (snd (handleMessage pickyDecoder (exampleEnv 1000 1)
      \<lparr>serverContent = Some (emptyContent\<lparr>inputTranscription := Some \<lparr>transcription_text = Some ''hi''\<rparr>,
            turnComplete := True, interrupted := False\<rparr>)\<rparr>
      (snd (handleMessage pickyDecoder (exampleEnv 0 1) (audioMessage ''AAAA'')
          (onopen (startRequest grantedEnv initialHook))))))
   = [\<lparr>entry_id = ''user-1000'', entry_role = USER, entry_text = ''hi''\<rparr>]
   \<and> sourcesRef (snd (handleMessage pickyDecoder (exampleEnv 1000 1)
      \<lparr>serverContent = Some (emptyContent\<lparr>inputTranscription := Some \<lparr>transcription_text = Some ''hi''\<rparr>,
            turnComplete := True, interrupted := True\<rparr>)\<rparr>
      (snd (handleMessage pickyDecoder (exampleEnv 0 1) (audioMessage ''AAAA'')
          (onopen (startRequest grantedEnv initialHook)))))) = []"
  using interruption_changes_playback_only
     [where dec = pickyDecoder and env = "exampleEnv 1000 1"
        and m = turnCompleteMessage
        and c = "emptyContent\<lparr>inputTranscription := Some \<lparr>transcription_text = Some ''hi''\<rparr>,
            turnComplete := True\<rparr>"
        and s = "snd (handleMessage pickyDecoder (exampleEnv 0 1) (audioMessage ''AAAA'')
                   (onopen (startRequest grantedEnv initialHook)))"]
  unfolding one_chunk_example by (simp add: message_defs string_defs Let_def)

subsection \<open>A chunk that fails to decode\<close>

text \<open>
  C8, as amended. A message whose audio payload the decoder rejects, handled while
  the output context exists. The handler is rejected with the decoder's error; no
  source is created, started or stopped, and the set of sources is as it was. The
  state is the one the message's transcript part alone would leave (\<open>s0\<close>: the same
  message without its audio part and without its interruption flag), with the
  cursor clamped to the clock: connection state and error message are unchanged,
  transcript and accumulating buffers are those of \<open>s0\<close>. A chunk that decodes,
  handled next at a clock reading that is not earlier, is started where it would
  have been started had the failed chunk not arrived: at the maximum of the old
  cursor and its clock reading.
\<close>

theorem failed_chunk_is_dropped:
  assumes "serverContent m = Some c" and "base64Audio (Some c) = Inr (Some b)" and "b \<noteq> []"
    and "outputAudioContextRef s \<noteq> None" and "dec b = Inl e"
    and "base64Audio (serverContent m2) = Inr (Some b2)" and "b2 \<noteq> []" and "dec b2 = Inr buf2"
    and "currentTime env \<le> currentTime env2"
  shows "let s1 = snd (handleMessage dec env m s);
             s0 = snd (handleMessage dec env
                    (m\<lparr>serverContent := Some (c\<lparr>modelTurn := None, interrupted := False\<rparr>)\<rparr>) s)
         in fst (handleMessage dec env m s) = Rejected e
          \<and> s1 = s0\<lparr>nextStartTimeRef := max (nextStartTimeRef s) (currentTime env)\<rparr>
          \<and> connectionState s1 = connectionState s
          \<and> errorMessage s1 = errorMessage s
          \<and> transcript s1 = transcript s0
          \<and> currentInputTranscriptionRef s1 = currentInputTranscriptionRef s0
          \<and> currentOutputTranscriptionRef s1 = currentOutputTranscriptionRef s0
          \<and> sourcesRef s1 = sourcesRef s
          \<and> trace s1 = trace s
          \<and> fst (handleMessage dec env2 m2 s1) = Resolved
          \<and> prefix (trace s @ [SourceStart (allocated s) (max (nextStartTimeRef s) (currentTime env2))])
               (trace (snd (handleMessage dec env2 m2 s1)))"
proof -
  define s2 where "s2 = transcriptStep env (Some c) s"
  have p: "nextStartTimeRef s2 = nextStartTimeRef s \<and> sourcesRef s2 = sourcesRef s
      \<and> allocated s2 = allocated s \<and> trace s2 = trace s
      \<and> outputAudioContextRef s2 = outputAudioContextRef s
      \<and> connectionState s2 = connectionState s \<and> errorMessage s2 = errorMessage s"
    unfolding s2_def by (rule transcriptStep_frame)
  then have ctx2: "outputAudioContextRef s2 \<noteq> None" using assms(4) by simp
  note a = audioStep_decode_fails [where dec = dec and env = env, OF assms(2) assms(3) ctx2 assms(5)]
  have s0: "handleMessage dec env
      (m\<lparr>serverContent := Some (c\<lparr>modelTurn := None, interrupted := False\<rparr>)\<rparr>) s = (Resolved, s2)"
    by (simp add: chunk_removed s2_def)
  define s1' where "s1' = s2\<lparr>nextStartTimeRef := max (nextStartTimeRef s) (currentTime env)\<rparr>"
  have s1: "handleMessage dec env m s = (Rejected e, s1')"
    using a p assms(1) by (simp add: handleMessage_stages Let_def s2_def [symmetric] s1'_def)
  have q: "outputAudioContextRef s1' \<noteq> None" "trace s1' = trace s" "allocated s1' = allocated s"
    "nextStartTimeRef s1' = max (nextStartTimeRef s) (currentTime env)"
    "sourcesRef s1' = sourcesRef s" "connectionState s1' = connectionState s"
    "errorMessage s1' = errorMessage s" "transcript s1' = transcript s2"
    "currentInputTranscriptionRef s1' = currentInputTranscriptionRef s2"
    "currentOutputTranscriptionRef s1' = currentOutputTranscriptionRef s2"
    using p ctx2 by (simp_all add: s1'_def)
  note n = handleMessage_chunk_started
    [where dec = dec and env = env2, OF assms(6) assms(7) q(1) assms(8)]
  have "max (max (nextStartTimeRef s) (currentTime env)) (currentTime env2)
      = max (nextStartTimeRef s) (currentTime env2)"
    using assms(9) by (simp add: max_def)
  then have n': "fst (handleMessage dec env2 m2 s1') = Resolved
      \<and> prefix (trace s @ [SourceStart (allocated s) (max (nextStartTimeRef s) (currentTime env2))])
               (trace (snd (handleMessage dec env2 m2 s1')))"
    using n q by simp
  have e: "s1' = s2\<lparr>nextStartTimeRef := max (nextStartTimeRef s) (currentTime env)\<rparr>"
    by (simp add: s1'_def)
  show ?thesis
    unfolding Let_def s0 s1 fst_conv snd_conv using n' q e by simp
qed

text \<open>
  One source in flight, cursor at 1.5; a payload that fails to decode at clock time
  1.2 is rejected and leaves the set alone; the next good chunk, at 1.3, starts at
  1.5.
\<close>

theorem failed_chunk_is_dropped_witness:
  "fst (handleMessage pickyDecoder (exampleEnv 0 (6 / 5)) (audioMessage ''!!!!'')
          (snd (handleMessage pickyDecoder (exampleEnv 0 1) (audioMessage ''AAAA'')
             (onopen (startRequest grantedEnv initialHook)))))
     = Rejected (Error ''decode'')
   \<and> sourcesRef (snd (handleMessage pickyDecoder (exampleEnv 0 (6 / 5)) (audioMessage ''!!!!'')
          (snd (handleMessage pickyDecoder (exampleEnv 0 1) (audioMessage ''AAAA'')
             (onopen (startRequest grantedEnv initialHook))))))
     = [\<lparr>node_id = 0, node_buffer = \<lparr>duration = 1 / 2\<rparr>\<rparr>]
   \<and> trace (snd (handleMessage pickyDecoder (exampleEnv 0 (13 / 10)) (audioMessage ''AAAA'')
       (snd (handleMessage pickyDecoder (exampleEnv 0 (6 / 5)) (audioMessage ''!!!!'')
          (snd (handleMessage pickyDecoder (exampleEnv 0 1) (audioMessage ''AAAA'')
             (onopen (startRequest grantedEnv initialHook)))))))) =
      [SetConnectionState CONNECTING, SetAnalyserNode True, SetConnectionState CONNECTED,
       SourceStart 0 1, SourceStart 1 (3 / 2)]"
  using failed_chunk_is_dropped
     [where m = "audioMessage ''!!!!''" and c = "audioContent ''!!!!''" and b = "''!!!!''"
        and dec = pickyDecoder and env = "exampleEnv 0 (6 / 5)" and e = "Error ''decode''"
        and s = "snd (handleMessage pickyDecoder (exampleEnv 0 1) (audioMessage ''AAAA'')
                   (onopen (startRequest grantedEnv initialHook)))"
        and ?m2.0 = "audioMessage ''AAAA''" and ?b2.0 = "''AAAA''"
        and ?buf2.0 = "\<lparr>duration = 1 / 2\<rparr>" and ?env2.0 = "exampleEnv 0 (13 / 10)"]
  unfolding one_chunk_example by (simp add: message_defs Let_def)

text \<open>
  C8, as stated, says that the failure is fatal to the chunk only. A message that
  carries both a payload that fails to decode and the interruption flag shows that
  it is fatal to the rest of the handler: the rejected handler leaves the source in
  flight and the cursor at 1.5, where the same message without the audio part
  empties the set and resets the cursor to 0.
\<close>

theorem failed_chunk_drops_interruption_counterexample:
  "fst (handleMessage pickyDecoder (exampleEnv 0 (6 / 5))
          \<lparr>serverContent = Some ((audioContent ''!!!!'')\<lparr>interrupted := True\<rparr>)\<rparr>
          (snd (handleMessage pickyDecoder (exampleEnv 0 1) (audioMessage ''AAAA'')
             (onopen (startRequest grantedEnv initialHook)))))
     = Rejected (Error ''decode'')
   \<and> sourcesRef (snd (handleMessage pickyDecoder (exampleEnv 0 (6 / 5))
          \<lparr>serverContent = Some ((audioContent ''!!!!'')\<lparr>interrupted := True\<rparr>)\<rparr>
          (snd (handleMessage pickyDecoder (exampleEnv 0 1) (audioMessage ''AAAA'')
             (onopen (startRequest grantedEnv initialHook))))))
     = [\<lparr>node_id = 0, node_buffer = \<lparr>duration = 1 / 2\<rparr>\<rparr>]
   \<and> nextStartTimeRef (snd (handleMessage pickyDecoder (exampleEnv 0 (6 / 5))
          \<lparr>serverContent = Some ((audioContent ''!!!!'')\<lparr>interrupted := True\<rparr>)\<rparr>
          (snd (handleMessage pickyDecoder (exampleEnv 0 1) (audioMessage ''AAAA'')
             (onopen (startRequest grantedEnv initialHook))))))
     = 3 / 2
   \<and> sourcesRef (snd (handleMessage pickyDecoder (exampleEnv 0 (6 / 5)) interruptedMessage
          (snd (handleMessage pickyDecoder (exampleEnv 0 1) (audioMessage ''AAAA'')
             (onopen (startRequest grantedEnv initialHook))))))
     = []
   \<and> nextStartTimeRef (snd (handleMessage pickyDecoder (exampleEnv 0 (6 / 5)) interruptedMessage
          (snd (handleMessage pickyDecoder (exampleEnv 0 1) (audioMessage ''AAAA'')
             (onopen (startRequest grantedEnv initialHook))))))
     = 0"
  unfolding one_chunk_example by (simp add: message_defs Let_def)

subsection \<open>Entry identities\<close>

text \<open>
  C9. The identity of an entry is its role and the reading of \<^verbatim>\<open>Date.now()\<close>. Two user
  turns that complete within the same millisecond (both readings 1000) give two
  entries with the identity \<open>user-1000\<close>: the identities of the transcript are not
  distinct.
\<close>

theorem same_millisecond_same_id:
  "map entry_id (transcript
     (snd (handleMessage pickyDecoder (exampleEnv 1000 2) (userTurn ''no'')
        (snd (handleMessage pickyDecoder (exampleEnv 1000 1) (userTurn ''yes'')
           (onopen (startRequest grantedEnv initialHook)))))))
     = [''user-1000'', ''user-1000'']
   \<and> \<not> distinct (map entry_id (transcript
     (snd (handleMessage pickyDecoder (exampleEnv 1000 2) (userTurn ''no'')
        (snd (handleMessage pickyDecoder (exampleEnv 1000 1) (userTurn ''yes'')
           (onopen (startRequest grantedEnv initialHook))))))))"
  unfolding connected_example by (simp add: message_defs string_defs Let_def)

subsection \<open>Session requests\<close>

lemma startSetup_frame:
  "transcript (snd (startSetup cs senv s)) = transcript s
   \<and> currentInputTranscriptionRef (snd (startSetup cs senv s)) = currentInputTranscriptionRef s
   \<and> currentOutputTranscriptionRef (snd (startSetup cs senv s)) = currentOutputTranscriptionRef s
   \<and> connectionState (snd (startSetup cs senv s)) = connectionState s
   \<and> prefix (trace s) (trace (snd (startSetup cs senv s)))"
  by (simp add: startSetup_def Let_def split: option.split)

lemma startSetup_outcome:
  "fst (startSetup cs senv s) = Resolved \<longleftrightarrow>
     (apiKey senv \<noteq> None \<and> apiKey senv \<noteq> Some [] \<and> getUserMediaRejects senv = None)"
  by (simp add: startSetup_def Let_def split: option.split)

lemma startFailed_frame:
  "transcript (startFailed e s) = transcript s
   \<and> currentInputTranscriptionRef (startFailed e s) = currentInputTranscriptionRef s
   \<and> currentOutputTranscriptionRef (startFailed e s) = currentOutputTranscriptionRef s
   \<and> connectionState (startFailed e s) = ERROR
   \<and> prefix (trace s) (trace (startFailed e s))"
  by (simp add: startFailed_def Let_def)

text \<open>
  C4. A start request in a state other than \<open>IDLE\<close>, \<open>CLOSED\<close> and \<open>ERROR\<close> leaves
  the whole state as it is. In one of these three states it first moves to
  \<open>CONNECTING\<close> with an empty transcript and both accumulating buffers empty
  (\<open>startReset\<close>), and only then runs the set-up of devices and channel, on that
  state: the log continues with the move to \<open>CONNECTING\<close>, the transcript and both
  buffers are empty at the end, and the connection state at the end is \<open>CONNECTING\<close>
  when the set-up went through (a key is configured and the microphone was granted)
  and \<open>ERROR\<close> when it threw.
\<close>

theorem start_request_guard_and_reset:
  "(connectionState s \<noteq> IDLE \<and> connectionState s \<noteq> CLOSED \<and> connectionState s \<noteq> ERROR
      \<longrightarrow> startRequest senv s = s)
   \<and> (connectionState s = IDLE \<or> connectionState s = CLOSED \<or> connectionState s = ERROR
      \<longrightarrow> (let r = startSetup (connectionState s) senv (startReset s);
               s' = startRequest senv s
           in connectionState (startReset s) = CONNECTING
            \<and> transcript (startReset s) = []
            \<and> currentInputTranscriptionRef (startReset s) = []
            \<and> currentOutputTranscriptionRef (startReset s) = []
            \<and> s' = (case r of (Resolved, s1) \<Rightarrow> s1 | (Rejected e, s1) \<Rightarrow> startFailed e s1)
            \<and> prefix (trace s @ [SetConnectionState CONNECTING]) (trace s')
            \<and> transcript s' = []
            \<and> currentInputTranscriptionRef s' = []
            \<and> currentOutputTranscriptionRef s' = []
            \<and> connectionState s' =
                (if apiKey senv \<noteq> None \<and> apiKey senv \<noteq> Some [] \<and> getUserMediaRejects senv = None
                 then CONNECTING else ERROR)))"
proof -
  define s0 where "s0 = startReset s"
  obtain out s1 where r: "startSetup (connectionState s) senv s0 = (out, s1)"
    by (cases "startSetup (connectionState s) senv s0")
  have z: "connectionState s0 = CONNECTING \<and> transcript s0 = []
      \<and> currentInputTranscriptionRef s0 = [] \<and> currentOutputTranscriptionRef s0 = []
      \<and> trace s0 = trace s @ [SetConnectionState CONNECTING]"
    by (simp add: s0_def startReset_def)
  have f1: "transcript s1 = [] \<and> currentInputTranscriptionRef s1 = []
      \<and> currentOutputTranscriptionRef s1 = [] \<and> connectionState s1 = CONNECTING
      \<and> prefix (trace s @ [SetConnectionState CONNECTING]) (trace s1)"
    using startSetup_frame [of "connectionState s" senv s0] r z by simp
  have o: "out = Resolved \<longleftrightarrow>
     (apiKey senv \<noteq> None \<and> apiKey senv \<noteq> Some [] \<and> getUserMediaRejects senv = None)"
    using startSetup_outcome [of "connectionState s" senv s0] r by simp
  have pass: "connectionState s = IDLE \<or> connectionState s = CLOSED \<or> connectionState s = ERROR
     \<Longrightarrow> startRequest senv s = (case out of Resolved \<Rightarrow> s1 | Rejected e \<Rightarrow> startFailed e s1)"
    using r by (auto simp add: startRequest_def startSession_def s0_def split: Outcome.split)
  have fin: "transcript (case out of Resolved \<Rightarrow> s1 | Rejected e \<Rightarrow> startFailed e s1) = []
     \<and> currentInputTranscriptionRef (case out of Resolved \<Rightarrow> s1 | Rejected e \<Rightarrow> startFailed e s1) = []
     \<and> currentOutputTranscriptionRef (case out of Resolved \<Rightarrow> s1 | Rejected e \<Rightarrow> startFailed e s1) = []
     \<and> prefix (trace s @ [SetConnectionState CONNECTING])
          (trace (case out of Resolved \<Rightarrow> s1 | Rejected e \<Rightarrow> startFailed e s1))
     \<and> connectionState (case out of Resolved \<Rightarrow> s1 | Rejected e \<Rightarrow> startFailed e s1)
         = (if out = Resolved then CONNECTING else ERROR)"
  proof (cases out)
    case Resolved
    then show ?thesis using f1 by simp
  next
    case (Rejected e)
    then show ?thesis
      using f1 startFailed_frame [of e s1] by (auto intro: prefix_order.trans)
  qed
  have blocked: "connectionState s \<noteq> IDLE \<and> connectionState s \<noteq> CLOSED \<and> connectionState s \<noteq> ERROR
      \<Longrightarrow> startRequest senv s = s"
    by (simp add: startRequest_def startSession_def)
  show ?thesis
    using blocked pass fin z o r
    by (auto simp add: Let_def s0_def [symmetric] split: Outcome.split)
qed

text \<open>
  A start request while \<open>CONNECTED\<close> changes nothing. A start request in the ended
  session (state \<open>CLOSED\<close>, one transcript entry, a pending output fragment) gives
  \<open>CONNECTING\<close>, or \<open>ERROR\<close> when the microphone is denied, with the transcript and
  the buffers empty either way.
\<close>

theorem start_request_guard_and_reset_witness:
  "startRequest grantedEnv (onopen (startRequest grantedEnv initialHook))
     = onopen (startRequest grantedEnv initialHook)
   \<and> connectionState (startRequest grantedEnv (handleClose
       (snd (handleMessage pickyDecoder (exampleEnv 1000 1) (outputFragment ''part'')
          (snd (handleMessage pickyDecoder (exampleEnv 1000 1) (userTurn ''hi'')
             (onopen (startRequest grantedEnv initialHook)))))))) = CONNECTING
   \<and> transcript (startRequest grantedEnv (handleClose
       (snd (handleMessage pickyDecoder (exampleEnv 1000 1) (outputFragment ''part'')
          (snd (handleMessage pickyDecoder (exampleEnv 1000 1) (userTurn ''hi'')
             (onopen (startRequest grantedEnv initialHook)))))))) = []
   \<and> currentOutputTranscriptionRef (startRequest grantedEnv (handleClose
       (snd (handleMessage pickyDecoder (exampleEnv 1000 1) (outputFragment ''part'')
          (snd (handleMessage pickyDecoder (exampleEnv 1000 1) (userTurn ''hi'')
             (onopen (startRequest grantedEnv initialHook)))))))) = []
   \<and> connectionState (startRequest deniedEnv (handleClose
       (snd (handleMessage pickyDecoder (exampleEnv 1000 1) (outputFragment ''part'')
          (snd (handleMessage pickyDecoder (exampleEnv 1000 1) (userTurn ''hi'')
             (onopen (startRequest grantedEnv initialHook)))))))) = ERROR
   \<and> transcript (startRequest deniedEnv (handleClose
       (snd (handleMessage pickyDecoder (exampleEnv 1000 1) (outputFragment ''part'')
          (snd (handleMessage pickyDecoder (exampleEnv 1000 1) (userTurn ''hi'')
             (onopen (startRequest grantedEnv initialHook)))))))) = []"
  using start_request_guard_and_reset
      [of "onopen (startRequest grantedEnv initialHook)" grantedEnv]
    start_request_guard_and_reset
      [of "handleClose
       (snd (handleMessage pickyDecoder (exampleEnv 1000 1) (outputFragment ''part'')
          (snd (handleMessage pickyDecoder (exampleEnv 1000 1) (userTurn ''hi'')
             (onopen (startRequest grantedEnv initialHook))))))" grantedEnv]
    start_request_guard_and_reset
      [of "handleClose
       (snd (handleMessage pickyDecoder (exampleEnv 1000 1) (outputFragment ''part'')
          (snd (handleMessage pickyDecoder (exampleEnv 1000 1) (userTurn ''hi'')
             (onopen (startRequest grantedEnv initialHook))))))" deniedEnv]
  unfolding ended_session_example unfolding connected_example
  by (simp add: session_defs Let_def)

text \<open>The unmount cleanup never closes anything: its \<^verbatim>\<open>closeSession\<close> returns at the guard.\<close>

lemma unmountCleanup_does_nothing: "unmountCleanup s = s"
  by (simp add: unmountCleanup_def closeSession_def)

text \<open>
  C5, as amended. A close request made through the \<^verbatim>\<open>closeSession\<close> that the hook
  returns. In state \<open>IDLE\<close> or \<open>CLOSED\<close> it leaves the whole state as it is. In any
  other state the calls it makes are, in this order: the move to \<open>CLOSING\<close>; the
  disconnection of the script processor, the stop of the microphone tracks and the
  disconnection of the stream source; the release of the analyser node; the close
  of the input context and of the output context; the stop of every source in
  flight; the move to \<open>CLOSED\<close>, last. A call on a device that the session does not
  hold is left out. The channel is not closed among these calls: when a session
  promise is held, the callback that closes the channel is registered on it and
  the promise is let go. Afterwards the state is \<open>CLOSED\<close>, no device, context or
  session promise is held, the set of sources is empty and the cursor is 0. When
  the registered callback runs (here with no older callback waiting), the channel
  close is made if the promise resolved, after the move to \<open>CLOSED\<close>, and not made
  if it rejected.
\<close>

theorem close_request_tears_down_in_order:
  "(connectionState s = IDLE \<or> connectionState s = CLOSED \<longrightarrow> closeRequest s = s)
   \<and> (connectionState s \<noteq> IDLE \<and> connectionState s \<noteq> CLOSED \<longrightarrow>
        trace (closeRequest s) =
          trace s
          @ [SetConnectionState CLOSING]
          @ (if scriptProcessorRef s then [ScriptProcessorDisconnect] else [])
          @ (if mediaStreamSourceRef s then [MediaStreamTracksStop, MediaStreamSourceDisconnect]
             else [])
          @ [SetAnalyserNode False]
          @ (if inputAudioContextRef s \<noteq> None then [InputContextClose] else [])
          @ (if outputAudioContextRef s \<noteq> None then [OutputContextClose] else [])
          @ map (\<lambda>source. SourceStop (node_id source)) (sourcesRef s)
          @ [SetConnectionState CLOSED]
        \<and> reactions (closeRequest s) =
            reactions s @ (if sessionPromiseRef s then [CloseReaction] else [])
        \<and> connectionState (closeRequest s) = CLOSED
        \<and> \<not> sessionPromiseRef (closeRequest s)
        \<and> \<not> scriptProcessorRef (closeRequest s)
        \<and> \<not> mediaStreamSourceRef (closeRequest s)
        \<and> \<not> analyserNode (closeRequest s)
        \<and> inputAudioContextRef (closeRequest s) = None
        \<and> outputAudioContextRef (closeRequest s) = None
        \<and> sourcesRef (closeRequest s) = []
        \<and> nextStartTimeRef (closeRequest s) = 0
        \<and> (sessionPromiseRef s \<and> reactions s = [] \<longrightarrow>
             trace (runReaction True (closeRequest s)) = trace (closeRequest s) @ [SessionClose]
             \<and> trace (runReaction False (closeRequest s)) = trace (closeRequest s)))"
proof -
  have idle: "connectionState s = IDLE \<or> connectionState s = CLOSED \<longrightarrow> closeRequest s = s"
    by (simp add: closeRequest_def closeSession_def)
  have calls: "connectionState s \<noteq> IDLE \<and> connectionState s \<noteq> CLOSED \<longrightarrow>
        trace (closeRequest s) =
          trace s
          @ [SetConnectionState CLOSING]
          @ (if scriptProcessorRef s then [ScriptProcessorDisconnect] else [])
          @ (if mediaStreamSourceRef s then [MediaStreamTracksStop, MediaStreamSourceDisconnect]
             else [])
          @ [SetAnalyserNode False]
          @ (if inputAudioContextRef s \<noteq> None then [InputContextClose] else [])
          @ (if outputAudioContextRef s \<noteq> None then [OutputContextClose] else [])
          @ map (\<lambda>source. SourceStop (node_id source)) (sourcesRef s)
          @ [SetConnectionState CLOSED]
        \<and> reactions (closeRequest s) =
            reactions s @ (if sessionPromiseRef s then [CloseReaction] else [])"
    by (simp add: closeRequest_def closeSession_def stopAll_def Let_def)
  have fields: "connectionState s \<noteq> IDLE \<and> connectionState s \<noteq> CLOSED \<longrightarrow>
        connectionState (closeRequest s) = CLOSED
        \<and> \<not> sessionPromiseRef (closeRequest s)
        \<and> \<not> scriptProcessorRef (closeRequest s)
        \<and> \<not> mediaStreamSourceRef (closeRequest s)
        \<and> \<not> analyserNode (closeRequest s)
        \<and> inputAudioContextRef (closeRequest s) = None
        \<and> outputAudioContextRef (closeRequest s) = None
        \<and> sourcesRef (closeRequest s) = []
        \<and> nextStartTimeRef (closeRequest s) = 0"
    by (simp add: closeRequest_def closeSession_def stopAll_def Let_def)
  have later: "connectionState s \<noteq> IDLE \<and> connectionState s \<noteq> CLOSED \<longrightarrow>
        sessionPromiseRef s \<and> reactions s = [] \<longrightarrow>
          trace (runReaction True (closeRequest s)) = trace (closeRequest s) @ [SessionClose]
          \<and> trace (runReaction False (closeRequest s)) = trace (closeRequest s)"
    using calls by (simp add: runReaction_def reactionCall_def)
  show ?thesis
    using idle calls fields later by blast
qed

text \<open>
  A close request in the initial state changes nothing. A close request in the
  connected session with one source in flight makes every call of the list and
  registers the channel close; when the session promise resolves, the channel close
  follows the move to \<open>CLOSED\<close>.
\<close>

theorem close_request_tears_down_in_order_witness:
  "closeRequest initialHook = initialHook
   \<and> trace (closeRequest
        (snd (handleMessage pickyDecoder (exampleEnv 0 1) (audioMessage ''AAAA'')
           (onopen (startRequest grantedEnv initialHook))))) =
      [SetConnectionState CONNECTING, SetAnalyserNode True, SetConnectionState CONNECTED,
       SourceStart 0 1,
       SetConnectionState CLOSING, ScriptProcessorDisconnect,
       MediaStreamTracksStop, MediaStreamSourceDisconnect, SetAnalyserNode False,
       InputContextClose, OutputContextClose, SourceStop 0, SetConnectionState CLOSED]
   \<and> reactions (closeRequest
        (snd (handleMessage pickyDecoder (exampleEnv 0 1) (audioMessage ''AAAA'')
           (onopen (startRequest grantedEnv initialHook))))) = [CloseReaction]
   \<and> connectionState (closeRequest
        (snd (handleMessage pickyDecoder (exampleEnv 0 1) (audioMessage ''AAAA'')
           (onopen (startRequest grantedEnv initialHook))))) = CLOSED
   \<and> trace (runReaction True (closeRequest
        (snd (handleMessage pickyDecoder (exampleEnv 0 1) (audioMessage ''AAAA'')
           (onopen (startRequest grantedEnv initialHook)))))) =
      [SetConnectionState CONNECTING, SetAnalyserNode True, SetConnectionState CONNECTED,
       SourceStart 0 1,
       SetConnectionState CLOSING, ScriptProcessorDisconnect,
       MediaStreamTracksStop, MediaStreamSourceDisconnect, SetAnalyserNode False,
       InputContextClose, OutputContextClose, SourceStop 0, SetConnectionState CLOSED,
       SessionClose]"
  using close_request_tears_down_in_order [of initialHook]
    close_request_tears_down_in_order
      [of "snd (handleMessage pickyDecoder (exampleEnv 0 1) (audioMessage ''AAAA'')
           (onopen (startRequest grantedEnv initialHook)))"]
  unfolding one_chunk_example by (simp add: initialHook_def)

text \<open>
  C5, as stated, puts the request to close the channel second among the teardown
  steps and the move to \<open>CLOSED\<close> after all of them, for every close. In the connected
  session a close request ends in \<open>CLOSED\<close> with the channel close not made: it is
  made after the move to \<open>CLOSED\<close> when the session promise resolves, and never when
  it rejects. And the close made by the unmount cleanup, in the same \<open>CONNECTED\<close>
  session, performs no teardown at all.
\<close>

theorem channel_close_after_closed_counterexample:
  "connectionState (closeRequest (onopen (startRequest grantedEnv initialHook))) = CLOSED
   \<and> SessionClose \<notin> set (trace (closeRequest (onopen (startRequest grantedEnv initialHook))))
   \<and> trace (runReaction True (closeRequest (onopen (startRequest grantedEnv initialHook)))) =
      trace (closeRequest (onopen (startRequest grantedEnv initialHook))) @ [SessionClose]
   \<and> last (trace (closeRequest (onopen (startRequest grantedEnv initialHook))))
      = SetConnectionState CLOSED
   \<and> SessionClose \<notin>
      set (trace (runReaction False (closeRequest (onopen (startRequest grantedEnv initialHook)))))
   \<and> connectionState (onopen (startRequest grantedEnv initialHook)) = CONNECTED
   \<and> unmountCleanup (onopen (startRequest grantedEnv initialHook))
      = onopen (startRequest grantedEnv initialHook)"
  unfolding connected_example by (simp add: session_defs Let_def)

subsection \<open>Failures\<close>

text \<open>
  A start that throws ends in \<open>ERROR\<close> with a message that is not empty; a start
  request is accepted in that state.
\<close>

lemma start_failure_reported:
  assumes "captured = IDLE \<or> captured = CLOSED \<or> captured = ERROR"
    and "fst (startSetup captured senv (startReset s)) \<noteq> Resolved"
  shows "connectionState (startSession captured senv s) = ERROR
    \<and> (\<exists>msg. errorMessage (startSession captured senv s) = Some msg \<and> msg \<noteq> [])"
proof -
  obtain out s1 where r: "startSetup captured senv (startReset s) = (out, s1)"
    by (cases "startSetup captured senv (startReset s)")
  then obtain e where e: "out = Rejected e" using assms(2) by (cases out) simp_all
  have "startSession captured senv s = startFailed e s1"
    using assms(1) r e by (auto simp add: startSession_def)
  then show ?thesis
    by (cases e) (simp_all add: startFailed_def)
qed

text \<open>
  What \<^verbatim>\<open>handleError\<close> does, by the state its \<^verbatim>\<open>closeSession\<close> closed over: with
  \<open>IDLE\<close> or \<open>CLOSED\<close> the state becomes \<open>ERROR\<close> and nothing is torn down; with any
  other value the teardown runs and the state becomes \<open>CLOSED\<close>.
\<close>

lemma handleError_without_teardown:
  assumes "captured = IDLE \<or> captured = CLOSED"
  shows "handleError captured s =
           s\<lparr>connectionState := ERROR,
             trace := trace s @ [SetConnectionState ERROR],
             errorMessage := Some ''A connection error occurred.''\<rparr>"
  using assms by (auto simp add: handleError_def closeSession_def)

lemma handleError_ends_closed:
  assumes "captured \<noteq> IDLE" and "captured \<noteq> CLOSED"
  shows "connectionState (handleError captured s) = CLOSED"
  using assms by (simp add: handleError_def closeSession_def stopAll_def Let_def)


text \<open>
  C7. A channel error in the first session (started from \<open>IDLE\<close>): \<^verbatim>\<open>handleError\<close>
  moves to \<open>ERROR\<close> and sets the message, but its \<^verbatim>\<open>closeSession\<close> still sees
  \<open>IDLE\<close> and returns at once: the channel, the microphone and the contexts stay
  held and no teardown call is made. A channel error in the restarted session
  (started from \<open>ERROR\<close>): the teardown runs and ends with the move to \<open>CLOSED\<close>, so
  the failure ends in \<open>CLOSED\<close>, not in \<open>ERROR\<close>.
\<close>

theorem channel_error_misses_error_or_teardown:
  "channelError (onopen (startRequest grantedEnv initialHook)) =
     (onopen (startRequest grantedEnv initialHook))
       \<lparr>connectionState := ERROR,
        errorMessage := Some ''A connection error occurred.'',
        trace := [SetConnectionState CONNECTING, SetAnalyserNode True,
                  SetConnectionState CONNECTED, SetConnectionState ERROR]\<rparr>
   \<and> sessionPromiseRef (channelError (onopen (startRequest grantedEnv initialHook)))
   \<and> mediaStreamSourceRef (channelError (onopen (startRequest grantedEnv initialHook)))
   \<and> outputAudioContextRef (channelError (onopen (startRequest grantedEnv initialHook))) = Some 24000
   \<and> connectionState (startRequest deniedEnv initialHook) = ERROR
   \<and> connectionState
        (channelError (onopen (startRequest grantedEnv (startRequest deniedEnv initialHook))))
       = CLOSED
   \<and> errorMessage
        (channelError (onopen (startRequest grantedEnv (startRequest deniedEnv initialHook))))
       = Some ''A connection error occurred.''"
  unfolding connected_example restarted_example by (simp add: session_defs Let_def)

subsection \<open>Captured samples\<close>

lemma fillInt16_from:
  "length int16 = length inputData \<Longrightarrow> i \<le> length inputData \<Longrightarrow>
   fillInt16 inputData i int16 =
     take i int16 @ map (\<lambda>x. toInt16 (x * 32768)) (drop i inputData)"
proof (induction inputData i int16 rule: fillInt16.induct)
  case (1 inputData i int16)
  show ?case
  proof (cases "i < length inputData")
    case True
    have "fillInt16 inputData i int16 =
        fillInt16 inputData (i + 1) (int16[i := toInt16 (inputData ! i * 32768)])"
      using True by (subst fillInt16.simps) simp
    also have "\<dots> = take (i + 1) (int16[i := toInt16 (inputData ! i * 32768)])
        @ map (\<lambda>x. toInt16 (x * 32768)) (drop (i + 1) inputData)"
      using True "1.prems" by (intro "1.IH") simp_all
    also have "take (i + 1) (int16[i := toInt16 (inputData ! i * 32768)])
        = take i int16 @ [toInt16 (inputData ! i * 32768)]"
      using True "1.prems" by (simp add: take_Suc_conv_app_nth)
    finally have "fillInt16 inputData i int16 =
        take i int16 @ toInt16 (inputData ! i * 32768)
          # map (\<lambda>x. toInt16 (x * 32768)) (drop (i + 1) inputData)"
      by simp
    moreover have "drop i inputData = inputData ! i # drop (i + 1) inputData"
      using True by (simp add: Cons_nth_drop_Suc)
    ultimately show ?thesis by simp
  next
    case False
    then show ?thesis using "1.prems" by (subst fillInt16.simps) simp
  qed
qed

lemma pcmInt16_map: "pcmInt16 inputData = map (\<lambda>x. toInt16 (x * 32768)) inputData"
  by (simp add: pcmInt16_def fillInt16_from)

text \<open>
  C6. The sample 1 is in the range \<open>[-1, 1]\<close>. Scaled by 32768 it is 32768, one past
  the largest 16-bit value, and the store wraps it to -32768: the frame decodes to
  the sample -1, at distance 2 from the original.
\<close>

theorem full_scale_sample_wraps:
  "map sint (pcmInt16 [1]) = [- 32768]
   \<and> map fromInt16 (pcmInt16 [1]) = [- 1]
   \<and> map sint (pcmInt16 [1 / 2, - 1, 0]) = [16384, - 32768, 0]"
  by (simp add: pcmInt16_map toInt16_def truncNumber_def fromInt16_def)

text \<open>Every sample from -1 up to, but not including, 1 is within one step of its frame value.\<close>

lemma truncNumber_bounds:
  "\<bar>real_of_int (truncNumber y) - y\<bar> < 1"
  unfolding truncNumber_def by (cases "y < 0"; simp; linarith)

lemma truncNumber_range:
  assumes "- 32768 \<le> y" and "y < 32768"
  shows "- 32768 \<le> truncNumber y \<and> truncNumber y < 32768"
  using assms unfolding truncNumber_def by (cases "y < 0") (simp_all, linarith+)

lemma sint_toInt16:
  assumes "- 32768 \<le> y" and "y < 32768"
  shows "sint (toInt16 y) = truncNumber y"
  using truncNumber_range [OF assms]
  unfolding toInt16_def by (simp add: sint_sbintrunc' signed_take_bit_int_eq_self)

lemma in_range_sample_roundtrip:
  assumes "- 1 \<le> x" and "x < 1"
  shows "sint (toInt16 (x * 32768)) = truncNumber (x * 32768)
    \<and> \<bar>fromInt16 (toInt16 (x * 32768)) - x\<bar> < 1 / 32768"
proof -
  have r: "- 32768 \<le> x * 32768" "x * 32768 < 32768" using assms by simp_all
  have s: "sint (toInt16 (x * 32768)) = truncNumber (x * 32768)" by (rule sint_toInt16 [OF r])
  have "\<bar>real_of_int (truncNumber (x * 32768)) - x * 32768\<bar> < 1" by (rule truncNumber_bounds)
  then have "\<bar>real_of_int (truncNumber (x * 32768)) / 32768 - x\<bar> < 1 / 32768"
    by (simp add: field_simps abs_less_iff)
  then show ?thesis using s by (simp add: fromInt16_def)
qed

end
